theory Spec2Isabelle
  imports
    Complex_Main
    "HOL-Library.Sublist"
    "HOL-Library.Char_ord"
    "HOL-Library.List_Lexorder"
    "HOL-Library.AList"
begin

section \<open>Strings\<close>

text \<open>
  A Python \<open>str\<close> is modelled as a \<open>string\<close>: a list of characters with code points
  below 256. The character classes below are Python's on that range.
\<close>

definition bslash :: char where
  "bslash = CHR 0x5C"

definition dquote :: char where
  "dquote = CHR 0x22"

definition nl :: char where
  "nl = CHR ''\<newline>''"

definition cr :: char where
  "cr = CHR 0x0D"

text \<open>\<open>str.isspace\<close> on one character; \<open>str.strip()\<close>, \<open>str.split()\<close> and the regular
  expression class \<open>\s\<close> all use it.\<close>

definition is_space :: "char \<Rightarrow> bool" where
  "is_space c =
     (let n = (of_char c :: nat)
      in (9 \<le> n \<and> n \<le> 13) \<or> (28 \<le> n \<and> n \<le> 32) \<or> n = 133 \<or> n = 160)"

text \<open>\<open>str.lower\<close> on one character: the ASCII capitals and the capitals of Latin-1.\<close>

definition lower_char :: "char \<Rightarrow> char" where
  "lower_char c =
     (let n = (of_char c :: nat)
      in if (65 \<le> n \<and> n \<le> 90) \<or> (192 \<le> n \<and> n \<le> 222 \<and> n \<noteq> 215)
         then char_of (n + 32) else c)"

definition lower :: "string \<Rightarrow> string" where
  "lower s = map lower_char s"

text \<open>\<open>str.strip()\<close>: white space removed at both ends.\<close>

definition strip :: "string \<Rightarrow> string" where
  "strip s = rev (dropWhile is_space (rev (dropWhile is_space s)))"

text \<open>
  \<open>s.replace(old, new)\<close>: the occurrences of \<open>old\<close> are found left to right, without
  overlap. With an empty \<open>old\<close> Python puts \<open>new\<close> before every character and at the end.
\<close>

fun replace_ne :: "string \<Rightarrow> string \<Rightarrow> string \<Rightarrow> string" where
  "replace_ne old new [] = []"
| "replace_ne old new (c # cs) =
     (if old \<noteq> [] \<and> prefix old (c # cs)
      then new @ replace_ne old new (drop (length old - 1) cs)
      else c # replace_ne old new cs)"

definition replace :: "string \<Rightarrow> string \<Rightarrow> string \<Rightarrow> string" where
  "replace old new s =
     (if old = [] then new @ concat (map (\<lambda>c. c # new) s) else replace_ne old new s)"

text \<open>\<open>re.sub('[ ]{2,}', ' ', url)\<close>: every run of two or more spaces becomes one space
  (a space followed by a space is dropped, so the last space of a run is the one kept).\<close>

fun collapse_spaces :: "string \<Rightarrow> string" where
  "collapse_spaces (a # b # cs) =
     (if a = CHR '' '' \<and> b = CHR '' '' then collapse_spaces (b # cs)
      else a # collapse_spaces (b # cs))"
| "collapse_spaces cs = cs"

section \<open>The URL normalizer\<close>

text \<open>
  \<^verbatim>\<open>url = re.sub('[ ]{2,}', ' ', url).strip()\<close>
  \<^verbatim>\<open>url = url.lower().replace(' ', '_')\<close>
  \<^verbatim>\<open>url = url.replace('\\\\', '/').replace('\\', '/')\<close>
\<close>

definition clean_url :: "string \<Rightarrow> string" where
  "clean_url url =
     (let url1 = strip (collapse_spaces url);
          url2 = replace '' '' ''_'' (lower url1);
          url3 = replace [bslash] ''/'' (replace [bslash, bslash] ''/'' url2)
      in url3)"

section \<open>Errors\<close>

text \<open>
  The exceptions the code can raise, by their Python class. \<open>RuntimeError\<close> is raised by
  \<open>Wiki.move\<close> for a target outside the content directory; \<open>OSError\<close> stands for the
  file-system failures (\<open>FileNotFoundError\<close> and its siblings); \<open>ReError\<close> is \<open>re.error\<close>.
\<close>

datatype error =
    ValueError
  | IndexError
  | KeyError
  | ZeroDivisionError
  | AttributeError
  | TypeError
  | RuntimeError
  | OSError
  | JSONDecodeError
  | ReError
  | OverflowError

section \<open>More of Python's string methods\<close>

text \<open>\<open>s.split(sep, 1)\<close> for a non-empty \<open>sep\<close>: \<open>None\<close> when \<open>sep\<close> does not occur (Python
  then returns the one-element list \<open>[s]\<close>), else the text before the first occurrence and
  the text after it.\<close>

fun split_once :: "string \<Rightarrow> string \<Rightarrow> (string \<times> string) option" where
  "split_once sep [] = None"
| "split_once sep (c # cs) =
     (if prefix sep (c # cs) then Some ([], drop (length sep) (c # cs))
      else map_option (\<lambda>(a, b). (c # a, b)) (split_once sep cs))"

text \<open>\<open>s.split(c)\<close> for a one-character separator: the pieces between the separators,
  empty pieces kept.\<close>

fun split_char :: "char \<Rightarrow> string \<Rightarrow> string list" where
  "split_char c [] = [[]]"
| "split_char c (x # xs) =
     (if x = c then [] # split_char c xs
      else (case split_char c xs of
              p # ps \<Rightarrow> (x # p) # ps
            | [] \<Rightarrow> [[x]]))"

text \<open>\<open>s.split()\<close>: the maximal runs of characters that are not white space.\<close>

fun words_from :: "string \<Rightarrow> string \<Rightarrow> string list" where
  "words_from cur [] = (if cur = [] then [] else [cur])"
| "words_from cur (c # cs) =
     (if is_space c then (if cur = [] then words_from [] cs else cur # words_from [] cs)
      else words_from (cur @ [c]) cs)"

definition split_ws :: "string \<Rightarrow> string list" where
  "split_ws s = words_from [] s"

text \<open>\<open>sep.join(items)\<close>.\<close>

fun join :: "string \<Rightarrow> string list \<Rightarrow> string" where
  "join sep [] = []"
| "join sep [x] = x"
| "join sep (x # y # ys) = x @ sep @ join sep (y # ys)"

text \<open>
  \<open>int(s)\<close> in base ten: white space stripped, an optional sign, then decimal digits, where
  single underscores may stand between digits. \<open>None\<close> is Python's \<open>ValueError\<close>.
  The white space \<open>int\<close> strips is that of \<open>str.isspace\<close> without the four separator
  controls 28 to 31.
\<close>

definition is_int_space :: "char \<Rightarrow> bool" where
  "is_int_space c =
     (let n = (of_char c :: nat)
      in (9 \<le> n \<and> n \<le> 13) \<or> n = 32 \<or> n = 133 \<or> n = 160)"

definition is_digit :: "char \<Rightarrow> bool" where
  "is_digit c = (48 \<le> (of_char c :: nat) \<and> (of_char c :: nat) \<le> 57)"

definition digit_val :: "char \<Rightarrow> nat" where
  "digit_val c = of_char c - 48"

fun parse_digits :: "nat \<Rightarrow> string \<Rightarrow> nat option" where
  "parse_digits acc [] = Some acc"
| "parse_digits acc [c] = (if is_digit c then Some (10 * acc + digit_val c) else None)"
| "parse_digits acc (c # d # cs) =
     (if is_digit c then parse_digits (10 * acc + digit_val c) (d # cs)
      else if c = CHR ''_'' \<and> is_digit d then parse_digits acc (d # cs)
      else None)"

definition parse_nat :: "string \<Rightarrow> nat option" where
  "parse_nat s =
     (case s of
        [] \<Rightarrow> None
      | c # cs \<Rightarrow> if is_digit c then parse_digits (digit_val c) cs else None)"

definition py_int :: "string \<Rightarrow> int option" where
  "py_int s =
     (case rev (dropWhile is_int_space (rev (dropWhile is_int_space s))) of
        [] \<Rightarrow> None
      | c # cs \<Rightarrow>
          if c = CHR ''-'' then map_option (\<lambda>n. - int n) (parse_nat cs)
          else if c = CHR ''+'' then map_option int (parse_nat cs)
          else map_option int (parse_nat (c # cs)))"

text \<open>\<open>str(n)\<close> for an integer.\<close>

fun str_nat :: "nat \<Rightarrow> string" where
  "str_nat n =
     (if n < 10 then [char_of (48 + n)]
      else str_nat (n div 10) @ [char_of (48 + n mod 10)])"

declare str_nat.simps [simp del]

definition str_int :: "int \<Rightarrow> string" where
  "str_int i = (if i < 0 then CHR ''-'' # str_nat (nat (- i)) else str_nat (nat i))"

section \<open>The content processor: split and metadata\<close>

text \<open>
  \<open>Processor.split_raw\<close>:
  \<^verbatim>\<open>self.meta_raw, self.markdown = self.pre.split('\n\n', 1)\<close>
  When the separator does not occur the list has one element and the assignment to two
  names raises \<open>ValueError\<close>.
\<close>

definition split_raw :: "string \<Rightarrow> error + (string \<times> string)" where
  "split_raw pre =
     (case split_once [nl, nl] pre of
        None \<Rightarrow> Inl ValueError
      | Some (meta_raw, markdown) \<Rightarrow> Inr (meta_raw, markdown))"

text \<open>
  A value of the renderer's \<open>Meta\<close> dictionary: the renderer stores a list of lines,
  \<open>process_meta\<close> stores a \<open>str\<close>. \<open>'\n'.join\<close> iterates over either: over the lines of
  a list, over the characters of a \<open>str\<close>.
\<close>

datatype metaval = MLines "string list" | MStr string

definition join_nl :: "metaval \<Rightarrow> string" where
  "join_nl v =
     (case v of
        MLines ls \<Rightarrow> join [nl] ls
      | MStr s \<Rightarrow> join [nl] (map (\<lambda>c. [c]) s))"

text \<open>\<open>line.split(':', 1)[0]\<close>: the text before the first colon, or the whole line.\<close>

definition meta_key :: "string \<Rightarrow> string" where
  "meta_key line = takeWhile (\<lambda>c. c \<noteq> CHR '':'') line"

text \<open>\<open>int(rate[1])\<close>: \<open>IndexError\<close> when the line has fewer than two words, \<open>ValueError\<close>
  when the second word is no integer.\<close>

definition rating_item :: "string list \<Rightarrow> error + int" where
  "rating_item rate =
     (case rate of
        _ # x # _ \<Rightarrow> (case py_int x of None \<Rightarrow> Inl ValueError | Some n \<Rightarrow> Inr n)
      | _ \<Rightarrow> Inl IndexError)"

text \<open>
  The first loop of \<open>Processor.process_meta\<close>, over the lines of the raw header. The state
  is \<open>(rate_Num, times_rated, rated)\<close>, started at \<open>(0, 1, 0)\<close>.
\<close>

fun read_ratings :: "string list \<Rightarrow> int \<times> int \<times> int \<Rightarrow> error + (int \<times> int \<times> int)" where
  "read_ratings [] st = Inr st"
| "read_ratings (line # rest) (rate_Num, times_rated, rated) =
     (let key = meta_key line; rate = split_ws line
      in if key = ''total'' then
           (case rating_item rate of
              Inl e \<Rightarrow> Inl e
            | Inr n \<Rightarrow> read_ratings rest (n, times_rated, rated))
         else if key = ''timesrated'' then
           (case rating_item rate of
              Inl e \<Rightarrow> Inl e
            | Inr n \<Rightarrow> read_ratings rest (rate_Num, n + 1, rated))
         else if key = ''rating'' then
           (case rating_item rate of
              Inl e \<Rightarrow> Inl e
            | Inr n \<Rightarrow> read_ratings rest (rate_Num, times_rated, n))
         else read_ratings rest (rate_Num, times_rated, rated))"

text \<open>
  The second loop: for the three reserved keys the renderer's \<open>Meta\<close> entry is overwritten
  with a \<open>str\<close> (\<open>total_s\<close>, \<open>times_s\<close> and \<open>rated_s\<close> are \<open>str(total)\<close>,
  \<open>str(times_rated)\<close> and \<open>str(rated)\<close>); then, for every line, \<open>self.meta[key.lower()]\<close> is set to the
  newline-join of the renderer's entry (\<open>KeyError\<close> when the renderer has none).
  \<open>self.meta\<close> is an \<open>OrderedDict\<close>: an association list in insertion order.
\<close>

fun write_meta ::
  "string \<Rightarrow> string \<Rightarrow> string \<Rightarrow> string list \<Rightarrow>
   (string \<Rightarrow> metaval option) \<times> (string \<times> string) list \<Rightarrow>
   error + ((string \<Rightarrow> metaval option) \<times> (string \<times> string) list)" where
  "write_meta total_s times_s rated_s [] st = Inr st"
| "write_meta total_s times_s rated_s (line # rest) (Meta, meta) =
     (let key = meta_key line;
          Meta1 =
            (if key = ''total'' then Meta(lower key \<mapsto> MStr (lower total_s))
             else if key = ''timesrated'' then Meta(lower key \<mapsto> MStr (lower times_s))
             else if key = ''rating'' then Meta(lower key \<mapsto> MStr (lower rated_s))
             else Meta)
      in case Meta1 (lower key) of
           None \<Rightarrow> Inl KeyError
         | Some v \<Rightarrow>
             write_meta total_s times_s rated_s rest
               (Meta1, AList.update (lower key) (join_nl v) meta))"

text \<open>
  \<open>Processor.process_meta\<close>. \<open>fdiv a b\<close> stands for Python's \<open>str(a / b)\<close> with \<open>b\<close> not
  zero: the decimal form of the float nearest to the quotient, \<open>None\<close> when the quotient
  is too large for a float (\<open>OverflowError\<close>). \<open>Meta\<close> is the renderer's dictionary as
  \<open>process_markdown\<close> left it. The result is the renderer's dictionary afterwards and
  \<open>self.meta\<close>.
\<close>

definition process_meta ::
  "(int \<Rightarrow> int \<Rightarrow> string option) \<Rightarrow> (string \<Rightarrow> metaval option) \<Rightarrow> string \<Rightarrow>
   error + ((string \<Rightarrow> metaval option) \<times> (string \<times> string) list)" where
  "process_meta fdiv Meta meta_raw =
     (let metaField = split_char nl meta_raw
      in case read_ratings metaField (0, 1, 0) of
           Inl e \<Rightarrow> Inl e
         | Inr (rate_Num, times_rated, rated) \<Rightarrow>
             (let total_n = rated + rate_Num
              in if times_rated = 0 then Inl ZeroDivisionError
                 else (case fdiv total_n times_rated of
                         None \<Rightarrow> Inl OverflowError
                       | Some rated_s \<Rightarrow>
                           write_meta (str_int total_n) (str_int times_rated) rated_s
                             metaField (Meta, []))))"

section \<open>The link resolver\<close>

text \<open>
  The pattern of \<open>wikilink\<close>, compiled with \<open>re.X\<close> (white space in the pattern is not
  part of it), here without the backslashes the source puts before the angle brackets
  of the lookbehind:
  \<^verbatim>\<open>((?<!<code>)\[\[([^<].+?) \s*([|] \s* (.+?) \s*)?]])\<close>
  Group 1 is the whole link, group 2 the target (one character other than \<open><\<close>, then one
  or more characters other than a newline, as few as possible), group 3 the optional part
  from the bar on, group 4 the display name. The matcher below tries the alternatives in
  the order of Python's backtracking matcher: a lazy \<open>.+?\<close> from the shortest, a greedy
  \<open>\s*\<close> from the longest, the optional group before its omission.
\<close>

fun first_some :: "('a \<Rightarrow> 'b option) \<Rightarrow> 'a list \<Rightarrow> 'b option" where
  "first_some f [] = None"
| "first_some f (x # xs) = (case f x of Some y \<Rightarrow> Some y | None \<Rightarrow> first_some f xs)"

text \<open>The lengths a greedy \<open>\s*\<close> tries at the head of \<open>r\<close>, longest first.\<close>

definition ws_counts :: "string \<Rightarrow> nat list" where
  "ws_counts r = rev [0 ..< Suc (length (takeWhile is_space r))]"

text \<open>The lengths a lazy \<open>.+?\<close> tries at the head of \<open>r\<close>, shortest first.\<close>

definition dot_counts :: "string \<Rightarrow> nat list" where
  "dot_counts r = [1 ..< Suc (length (takeWhile (\<lambda>c. c \<noteq> nl) r))]"

text \<open>\<open>]]\<close> at the head of \<open>r\<close>: the text after it.\<close>

definition match_close :: "string \<Rightarrow> string option" where
  "match_close r = (if take 2 r = '']]'' then Some (drop 2 r) else None)"

text \<open>\<open>([|] \s* (.+?) \s*)\<close> followed by \<open>]]\<close>, at the head of \<open>r\<close>: group 3, group 4 and
  the text after the link.\<close>

definition match_pipe :: "string \<Rightarrow> (string \<times> string \<times> string) option" where
  "match_pipe r =
     (case r of
        [] \<Rightarrow> None
      | c # r1 \<Rightarrow>
          if c \<noteq> CHR ''|'' then None
          else first_some (\<lambda>w2.
                 let r2 = drop w2 r1
                 in first_some (\<lambda>k.
                      let g4 = take k r2; r3 = drop k r2
                      in first_some (\<lambda>w3.
                           case match_close (drop w3 r3) of
                             None \<Rightarrow> None
                           | Some rest \<Rightarrow> Some (take (1 + w2 + k + w3) r, g4, rest))
                         (ws_counts r3))
                    (dot_counts r2))
               (ws_counts r1))"

text \<open>The pattern without its lookbehind, at the head of \<open>s\<close>: groups 1 to 4 and the
  text after the link.\<close>

definition match_here :: "string \<Rightarrow> (string \<times> string \<times> string \<times> string \<times> string) option" where
  "match_here s =
     (case s of
        a # b # c0 # r0 \<Rightarrow>
          if a = CHR ''['' \<and> b = CHR ''['' \<and> c0 \<noteq> CHR ''<'' then
            first_some (\<lambda>k.
              let g2 = c0 # take k r0; r1 = drop k r0
              in first_some (\<lambda>w.
                   let r2 = drop w r1
                   in case match_pipe r2 of
                        Some (g3, g4, rest) \<Rightarrow>
                          Some (take (length s - length rest) s, g2, g3, g4, rest)
                      | None \<Rightarrow>
                          (case match_close r2 of
                             None \<Rightarrow> None
                           | Some rest \<Rightarrow>
                               Some (take (length s - length rest) s, g2, [], [], rest)))
                 (ws_counts r1))
            (dot_counts r0)
          else None
      | _ \<Rightarrow> None)"

text \<open>The whole pattern at a position: \<open>behind\<close> is the text before the position,
  reversed, and must not end with \<open><code>\<close>.\<close>

definition match_link :: "string \<Rightarrow> string \<Rightarrow> (string \<times> string \<times> string \<times> string \<times> string) option" where
  "match_link behind s = (if take 6 behind = rev ''<code>'' then None else match_here s)"

text \<open>The leftmost match in \<open>s\<close>: the text before it, its groups, the text after it.\<close>

fun search_link ::
  "string \<Rightarrow> string \<Rightarrow> (string \<times> (string \<times> string \<times> string \<times> string) \<times> string) option" where
  "search_link behind [] = None"
| "search_link behind (c # cs) =
     (case match_link behind (c # cs) of
        Some (g1, g2, g3, g4, rest) \<Rightarrow> Some ([], (g1, g2, g3, g4), rest)
      | None \<Rightarrow>
          (case search_link (c # behind) cs of
             None \<Rightarrow> None
           | Some (pre, gs, rest) \<Rightarrow> Some (c # pre, gs, rest)))"

text \<open>\<open>link_regex.findall(text)\<close>: the groups of the matches, left to right, each search
  resuming where the match before it ended (\<open>skip\<close> counts the characters of a match still
  to pass).\<close>

fun findall_links :: "nat \<Rightarrow> string \<Rightarrow> string \<Rightarrow> (string \<times> string \<times> string \<times> string) list" where
  "findall_links skip behind [] = []"
| "findall_links skip behind (c # cs) =
     (if 0 < skip then findall_links (skip - 1) (c # behind) cs
      else (case match_link behind (c # cs) of
              Some (g1, g2, g3, g4, rest) \<Rightarrow>
                (g1, g2, g3, g4) # findall_links (length g1 - 1) (c # behind) cs
            | None \<Rightarrow> findall_links 0 (c # behind) cs))"

text \<open>
  The replacement template of \<open>re.sub\<close>. A backslash starts an escape: \<open>\g<n>\<close> and
  \<open>\1\<close> to \<open>\99\<close> refer to a group (the pattern has four; group 0 is the whole match),
  \<open>\0\<close> and three octal digits give a character, \<open>\a \b \f \n \r \t \v \\\<close> their control
  character, any other ASCII letter is an error, and any other character stays with its
  backslash. \<open>escape gs cs\<close> reads the escape whose backslash precedes \<open>cs\<close>: the text it
  stands for and the number of characters of \<open>cs\<close> it takes. \<open>gs\<close> are the groups 0 to 4.
  Python's tokenizer reads one token ahead, so a lone backslash at the very end of the
  template is reported as soon as the token before it is taken: before an unknown group
  name is. A name that is an identifier is an unknown group (\<open>IndexError\<close>), since the
  pattern names no group.
\<close>

definition is_octdigit :: "char \<Rightarrow> bool" where
  "is_octdigit c = (48 \<le> (of_char c :: nat) \<and> (of_char c :: nat) \<le> 55)"

definition is_ascii_letter :: "char \<Rightarrow> bool" where
  "is_ascii_letter c =
     (let n = (of_char c :: nat) in (65 \<le> n \<and> n \<le> 90) \<or> (97 \<le> n \<and> n \<le> 122))"

text \<open>\<open>str.isidentifier\<close>.\<close>

definition id_start :: "char \<Rightarrow> bool" where
  "id_start c =
     (let n = (of_char c :: nat)
      in (65 \<le> n \<and> n \<le> 90) \<or> n = 95 \<or> (97 \<le> n \<and> n \<le> 122) \<or> n = 170 \<or> n = 181 \<or>
         n = 186 \<or> (192 \<le> n \<and> n \<le> 214) \<or> (216 \<le> n \<and> n \<le> 246) \<or> 248 \<le> n)"

definition id_continue :: "char \<Rightarrow> bool" where
  "id_continue c = (id_start c \<or> is_digit c \<or> (of_char c :: nat) = 183)"

definition isidentifier :: "string \<Rightarrow> bool" where
  "isidentifier s = (case s of [] \<Rightarrow> False | c # cs \<Rightarrow> id_start c \<and> list_all id_continue cs)"

text \<open>The group name up to the closing \<open>>\<close> and the text after it; a backslash and the
  character after it are one token, as in Python's tokenizer.\<close>

fun group_name :: "string \<Rightarrow> (string \<times> string) option" where
  "group_name [] = None"
| "group_name [c] = (if c = CHR ''>'' then Some ([], []) else None)"
| "group_name (c # d # ds) =
     (if c = CHR ''>'' then Some ([], d # ds)
      else if c = bslash then map_option (\<lambda>(n, r). (c # d # n, r)) (group_name ds)
      else map_option (\<lambda>(n, r). (c # n, r)) (group_name (d # ds)))"

definition octal_val :: "string \<Rightarrow> nat" where
  "octal_val ds = foldl (\<lambda>acc c. 8 * acc + digit_val c) 0 ds"

definition group_ref :: "string list \<Rightarrow> nat \<Rightarrow> nat \<Rightarrow> error + (string \<times> nat)" where
  "group_ref gs i n = (if 4 < i then Inl ReError else Inr (gs ! i, n))"

definition escape :: "string list \<Rightarrow> string \<Rightarrow> error + (string \<times> nat)" where
  "escape gs cs =
     (case cs of
        [] \<Rightarrow> Inl ReError
      | e # r \<Rightarrow>
          if e = CHR ''g'' then
            (case r of
               [] \<Rightarrow> Inl ReError
             | lt # r1 \<Rightarrow>
                 if lt \<noteq> CHR ''<'' then Inl ReError
                 else (case group_name r1 of
                         None \<Rightarrow> Inl ReError
                       | Some (name, r2) \<Rightarrow>
                           if name = [] \<or> r2 = [bslash] then Inl ReError
                           else if isidentifier name then Inl IndexError
                           else (case py_int name of
                                   None \<Rightarrow> Inl ReError
                                 | Some i \<Rightarrow>
                                     if i < 0 then Inl ReError
                                     else group_ref gs (nat i) (length name + 3))))
          else if e = CHR ''0'' then
            (let ds = takeWhile is_octdigit (take 2 r)
             in Inr ([char_of (octal_val ds mod 256)], 1 + length ds))
          else if is_digit e then
            (case r of
               [] \<Rightarrow> group_ref gs (digit_val e) 1
             | d # r' \<Rightarrow>
                 if is_digit d then
                   (if is_octdigit e \<and> is_octdigit d \<and> r' \<noteq> [] \<and> is_octdigit (hd r') then
                      (let v = octal_val [e, d, hd r']
                       in if 255 < v then Inl ReError else Inr ([char_of v], 3))
                    else group_ref gs (10 * digit_val e + digit_val d) 2)
                 else group_ref gs (digit_val e) 1)
          else if e = CHR ''a'' then Inr ([char_of (7::nat)], 1)
          else if e = CHR ''b'' then Inr ([char_of (8::nat)], 1)
          else if e = CHR ''f'' then Inr ([char_of (12::nat)], 1)
          else if e = CHR ''n'' then Inr ([nl], 1)
          else if e = CHR ''r'' then Inr ([cr], 1)
          else if e = CHR ''t'' then Inr ([char_of (9::nat)], 1)
          else if e = CHR ''v'' then Inr ([char_of (11::nat)], 1)
          else if e = bslash then Inr ([bslash], 1)
          else if is_ascii_letter e then Inl ReError
          else Inr ([bslash, e], 1))"

text \<open>The template expanded for one match, left to right; \<open>skip\<close> counts the characters
  of an escape still to pass.\<close>

fun expand_template :: "string list \<Rightarrow> nat \<Rightarrow> string \<Rightarrow> error + string" where
  "expand_template gs skip [] = Inr []"
| "expand_template gs skip (c # cs) =
     (if 0 < skip then expand_template gs (skip - 1) cs
      else if c \<noteq> bslash then
        (case expand_template gs 0 cs of Inl e \<Rightarrow> Inl e | Inr t \<Rightarrow> Inr (c # t))
      else (case escape gs cs of
              Inl e \<Rightarrow> Inl e
            | Inr (txt, n) \<Rightarrow>
                (case expand_template gs n cs of Inl e \<Rightarrow> Inl e | Inr t \<Rightarrow> Inr (txt @ t))))"

text \<open>
  \<open>re.sub(link_regex, template, text, count=1)\<close>: the template is parsed first (its errors
  are raised whether or not the pattern matches), then the leftmost match, if there is
  one, is replaced by the expansion.
\<close>

definition sub_first :: "string \<Rightarrow> string \<Rightarrow> error + string" where
  "sub_first template text =
     (case expand_template [[], [], [], [], []] 0 template of
        Inl e \<Rightarrow> Inl e
      | Inr _ \<Rightarrow>
          (case search_link [] text of
             None \<Rightarrow> Inr text
           | Some (pre, (g1, g2, g3, g4), rest) \<Rightarrow>
               (case expand_template [g1, g1, g2, g3, g4] 0 template of
                  Inl e \<Rightarrow> Inl e
                | Inr rep \<Rightarrow> Inr (pre @ rep @ rest))))"

text \<open>
  \<open>wikilink(text, url_formatter)\<close>. The loop runs over the matches found in the original
  text; each round builds the anchor of its match and substitutes it, as a template, for
  the leftmost match of the current text. \<open>url_formatter u\<close> stands for
  \<open>url_formatter('wiki.display', url=u)\<close>.
\<close>

fun wikilink_loop ::
  "(string \<Rightarrow> string) \<Rightarrow> (string \<times> string \<times> string \<times> string) list \<Rightarrow> string \<Rightarrow> error + string" where
  "wikilink_loop url_formatter [] text = Inr text"
| "wikilink_loop url_formatter ((g1, g2, g3, g4) # ms) text =
     (let title = (if g4 \<noteq> [] then g4 else g2);
          url = clean_url g2;
          html_url = ''<a href='' @ [CHR 0x27] @ url_formatter url @ [CHR 0x27] @ ''>'' @ title @ ''</a>''
      in case sub_first html_url text of
           Inl e \<Rightarrow> Inl e
         | Inr text' \<Rightarrow> wikilink_loop url_formatter ms text')"

definition wikilink :: "string \<Rightarrow> (string \<Rightarrow> string) \<Rightarrow> error + string" where
  "wikilink text url_formatter = wikilink_loop url_formatter (findall_links 0 [] text) text"

section \<open>The table of contents\<close>

text \<open>\<open>Processor.find_tags\<close>: the start positions of the matches of \<open>re.finditer\<close>. It is
  called with \<open><h1>\<close> and \<open></h1>\<close> only, patterns that stand for themselves, so the
  matches are the occurrences of the text, left to right without overlap.\<close>

fun find_from :: "nat \<Rightarrow> nat \<Rightarrow> string \<Rightarrow> string \<Rightarrow> nat list" where
  "find_from skip pos substr [] = []"
| "find_from skip pos substr (c # cs) =
     (if 0 < skip then find_from (skip - 1) (Suc pos) substr cs
      else if prefix substr (c # cs) then pos # find_from (length substr - 1) (Suc pos) substr cs
      else find_from 0 (Suc pos) substr cs)"

definition find_tags :: "string \<Rightarrow> string \<Rightarrow> nat list" where
  "find_tags substr given_string = find_from 0 0 substr given_string"

text \<open>The slice \<open>s[a:b]\<close> for indices that are not negative.\<close>

definition slice :: "nat \<Rightarrow> nat \<Rightarrow> string \<Rightarrow> string" where
  "slice a b s = take (b - a) (drop a s)"

text \<open>The first loop of \<open>generate_contents_table\<close>: one list item per opening tag;
  \<open>header_close_loc[i]\<close> raises \<open>IndexError\<close> when there are fewer closing tags.\<close>

fun toc_items :: "string \<Rightarrow> nat list \<Rightarrow> nat list \<Rightarrow> error + string" where
  "toc_items final [] closes = Inr []"
| "toc_items final (o1 # opens) [] = Inl IndexError"
| "toc_items final (o1 # opens) (c1 # closes) =
     (let header = slice (o1 + 4) c1 final;
          header_f = ''#'' @ replace '' '' ''_'' header
      in case toc_items final opens closes of
           Inl e \<Rightarrow> Inl e
         | Inr items \<Rightarrow>
             Inr (''<li><a href='' @ [dquote] @ header_f @ [dquote] @ ''>'' @ header @ ''</a></li>''
                  @ items))"

text \<open>The second loop, from the last heading to the first: the anchor is put before the
  opening tag; the header text is read from the text as changed so far.\<close>

fun add_anchors :: "(nat \<times> nat) list \<Rightarrow> string \<Rightarrow> string" where
  "add_anchors [] final = final"
| "add_anchors ((o1, c1) # locs) final =
     (let header = slice (o1 + 4) c1 final;
          header_f = replace '' '' ''_'' header
      in add_anchors locs
           (take o1 final @ ''<a name='' @ [dquote] @ header_f @ [dquote] @ ''></a>''
            @ drop o1 final))"

definition generate_contents_table :: "string \<Rightarrow> error + string" where
  "generate_contents_table final =
     (if find_tags ''<h1>'' final \<noteq> [] then
        (let header_open_loc = find_tags ''<h1>'' final;
             header_close_loc = find_tags ''</h1>'' final
         in case toc_items final header_open_loc header_close_loc of
              Inl e \<Rightarrow> Inl e
            | Inr items \<Rightarrow>
                Inr (''<div class='' @ [dquote] @ ''row'' @ [dquote] @ ''><div class='' @ [dquote]
                     @ ''span2'' @ [dquote]
                     @ ''><h3>Contents</h3><ul class='nav nav-tabs nav-stacked'>''
                     @ items @ ''</ul><br></div></div>''
                     @ add_anchors (rev (zip header_open_loc header_close_loc)) final))
      else Inr final)"

section \<open>The environment\<close>

text \<open>
  A history entry, and a key of the entry dictionary: the keys loaded from the JSON file
  are strings, the key \<open>History.save\<close> adds is the float \<open>datetime.now().timestamp()\<close>
  (every finite float is a rational number). In Python a float never equals a string.
\<close>

record entry =
  user :: string
  formatted_date :: string
  version :: string

datatype key = KStr string | KFloat rat

text \<open>
  What the code calls and this repository does not define:
  \<^item> \<open>md_convert\<close>: the Markdown renderer with its four extensions, \<open>self.md.convert\<close>; it
    gives the HTML and the \<open>Meta\<close> dictionary the meta extension fills (keys to lists of
    lines);
  \<^item> \<open>str_truediv a b\<close>: \<open>str(a / b)\<close> for \<open>b\<close> not zero, see \<open>process_meta\<close>;
  \<^item> \<open>url_for u\<close>: Flask's \<open>url_for('wiki.display', url=u)\<close>;
  \<^item> \<open>json_load\<close>: \<open>json.load\<close> on the text of a file, \<open>None\<close> when it is not a JSON object
    of entries; \<open>json_dump\<close>: the text \<open>json.dump(entries, hist, indent=4)\<close> writes;
  \<^item> \<open>os_path_join\<close>, \<open>os_path_normpath\<close>, \<open>os_path_dirname\<close>: the functions of \<open>os.path\<close>,
    which depend on the platform.
\<close>

record env =
  md_convert :: "string \<Rightarrow> string \<times> (string \<Rightarrow> string list option)"
  str_truediv :: "int \<Rightarrow> int \<Rightarrow> string option"
  url_for :: "string \<Rightarrow> string"
  json_load :: "string \<Rightarrow> (string \<times> entry) list option"
  json_dump :: "(key \<times> entry) list \<Rightarrow> string"
  os_path_join :: "string \<Rightarrow> string \<Rightarrow> string"
  os_path_normpath :: "string \<Rightarrow> string"
  os_path_dirname :: "string \<Rightarrow> string"

section \<open>The processing pipeline\<close>

text \<open>The class attributes \<open>preprocessors = []\<close> and \<open>postprocessors = [wikilink]\<close>;
  \<open>wikilink\<close> is called with its default formatter.\<close>

definition preprocessors :: "(string \<Rightarrow> string) list" where
  "preprocessors = []"

definition postprocessors :: "env \<Rightarrow> (string \<Rightarrow> error + string) list" where
  "postprocessors ev = [\<lambda>text. wikilink text (url_for ev)]"

definition process_pre :: "string \<Rightarrow> string" where
  "process_pre input = fold (\<lambda>processor current. processor current) preprocessors input"

fun run_post :: "(string \<Rightarrow> error + string) list \<Rightarrow> string \<Rightarrow> error + string" where
  "run_post [] current = Inr current"
| "run_post (processor # ps) current =
     (case processor current of Inl e \<Rightarrow> Inl e | Inr current' \<Rightarrow> run_post ps current')"

definition process_post :: "env \<Rightarrow> string \<Rightarrow> error + string" where
  "process_post ev html = run_post (postprocessors ev) html"

text \<open>\<open>Processor.process\<close>: the final HTML, the markdown body and the metadata.\<close>

definition process :: "env \<Rightarrow> string \<Rightarrow> error + (string \<times> string \<times> (string \<times> string) list)" where
  "process ev input =
     (let pre = process_pre input;
          (html, Meta) = md_convert ev pre
      in case split_raw pre of
           Inl e \<Rightarrow> Inl e
         | Inr (meta_raw, markdown) \<Rightarrow>
             (case process_meta (str_truediv ev) (map_option MLines \<circ> Meta) meta_raw of
                Inl e \<Rightarrow> Inl e
              | Inr (Meta', meta) \<Rightarrow>
                  (case process_post ev html of
                     Inl e \<Rightarrow> Inl e
                   | Inr final \<Rightarrow>
                       (case generate_contents_table final of
                          Inl e \<Rightarrow> Inl e
                        | Inr final' \<Rightarrow> Inr (final', markdown, meta)))))"

section \<open>The file system\<close>

text \<open>
  The file system is a map from path strings to file contents, with the set of
  directories. A file is known by the spelling of its path. Opening a file for writing
  always succeeds and replaces its contents; reading, removing or renaming a file that
  is not there raises \<open>OSError\<close>. Text is written as it is (the line separator of the
  platform is the newline) and read with Python's universal newlines.
\<close>

record world =
  files :: "string \<Rightarrow> string option"
  dirs :: "string set"

definition os_path_exists :: "world \<Rightarrow> string \<Rightarrow> bool" where
  "os_path_exists w p = (files w p \<noteq> None \<or> p \<in> dirs w)"

definition write_text :: "world \<Rightarrow> string \<Rightarrow> string \<Rightarrow> world" where
  "write_text w p text = w\<lparr>files := (files w)(p \<mapsto> text)\<rparr>"

definition universal_newlines :: "string \<Rightarrow> string" where
  "universal_newlines text = replace [cr] [nl] (replace [cr, nl] [nl] text)"

definition read_text :: "world \<Rightarrow> string \<Rightarrow> error + string" where
  "read_text w p =
     (case files w p of None \<Rightarrow> Inl OSError | Some text \<Rightarrow> Inr (universal_newlines text))"

definition os_remove :: "world \<Rightarrow> string \<Rightarrow> error + world" where
  "os_remove w p =
     (case files w p of
        None \<Rightarrow> Inl OSError
      | Some _ \<Rightarrow> Inr (w\<lparr>files := (files w)(p := None)\<rparr>))"

definition os_rename :: "world \<Rightarrow> string \<Rightarrow> string \<Rightarrow> error + world" where
  "os_rename w src dst =
     (case files w src of
        None \<Rightarrow> Inl OSError
      | Some text \<Rightarrow> Inr (w\<lparr>files := ((files w)(src := None))(dst \<mapsto> text)\<rparr>))"

text \<open>\<open>os.makedirs\<close>: the empty path and a path that exists are errors.\<close>

definition os_makedirs :: "world \<Rightarrow> string \<Rightarrow> error + world" where
  "os_makedirs w p =
     (if p = [] \<or> os_path_exists w p then Inl OSError
      else Inr (w\<lparr>dirs := insert p (dirs w)\<rparr>))"

subsection \<open>\<open>os.path\<close> on POSIX\<close>

text \<open>\<open>posixpath.join(a, b)\<close>.\<close>

definition posix_join :: "string \<Rightarrow> string \<Rightarrow> string" where
  "posix_join a b =
     (if b \<noteq> [] \<and> hd b = CHR ''/'' then b
      else if a = [] \<or> last a = CHR ''/'' then a @ b
      else a @ ''/'' @ b)"

text \<open>The loop of \<open>posixpath.normpath\<close> over the components, \<open>new_comps\<close> kept in
  order.\<close>

fun norm_comps :: "bool \<Rightarrow> string list \<Rightarrow> string list \<Rightarrow> string list" where
  "norm_comps initial_slashes new_comps [] = new_comps"
| "norm_comps initial_slashes new_comps (part # comps) =
     (if part = [] \<or> part = ''.'' then norm_comps initial_slashes new_comps comps
      else if part \<noteq> ''..'' \<or> (\<not> initial_slashes \<and> new_comps = [])
              \<or> (new_comps \<noteq> [] \<and> last new_comps = ''..'')
      then norm_comps initial_slashes (new_comps @ [part]) comps
      else if new_comps \<noteq> [] then norm_comps initial_slashes (butlast new_comps) comps
      else norm_comps initial_slashes new_comps comps)"

definition posix_normpath :: "string \<Rightarrow> string" where
  "posix_normpath p =
     (if p = [] then ''.''
      else
        (let initial_slashes =
               (if prefix ''/'' p then (if prefix ''//'' p \<and> \<not> prefix ''///'' p then 2 else 1)
                else (0::nat));
             comps = norm_comps (0 < initial_slashes) [] (split_char (CHR ''/'') p);
             p' = replicate initial_slashes (CHR ''/'') @ join ''/'' comps
         in if p' = [] then ''.'' else p'))"

text \<open>\<open>posixpath.dirname(p)\<close>: the text up to the last slash, without its trailing
  slashes unless it consists of slashes.\<close>

definition posix_dirname :: "string \<Rightarrow> string" where
  "posix_dirname p =
     (let hd_part = rev (dropWhile (\<lambda>c. c \<noteq> CHR ''/'') (rev p))
      in if hd_part \<noteq> [] \<and> \<not> list_all (\<lambda>c. c = CHR ''/'') hd_part
         then rev (dropWhile (\<lambda>c. c = CHR ''/'') (rev hd_part))
         else hd_part)"

text \<open>\<open>os.path.commonprefix\<close> of two strings: their longest common prefix, character
  by character.\<close>

fun commonprefix :: "string \<Rightarrow> string \<Rightarrow> string" where
  "commonprefix (a # as) (b # bs) = (if a = b then a # commonprefix as bs else [])"
| "commonprefix _ _ = []"

section \<open>History\<close>

record history =
  h_url :: string
  h_path :: string
  entries :: "(key \<times> entry) list"
  entryKeys :: "string list"

text \<open>\<open>History.create\<close>.\<close>

definition History_create :: "string \<Rightarrow> world \<Rightarrow> world" where
  "History_create pth w = write_text w pth ''{}\<newline>''"

text \<open>\<open>History.__init__\<close>: the file is created when it does not exist, then loaded;
  \<open>entryKeys\<close> are its keys, sorted in descending order.\<close>

definition History_init :: "env \<Rightarrow> string \<Rightarrow> string \<Rightarrow> world \<Rightarrow> (error + history) \<times> world" where
  "History_init ev pth u w =
     (let w1 = (if \<not> os_path_exists w pth then History_create pth w else w)
      in case read_text w1 pth of
           Inl e \<Rightarrow> (Inl e, w1)
         | Inr text \<Rightarrow>
             (case json_load ev text of
                None \<Rightarrow> (Inl JSONDecodeError, w1)
              | Some es \<Rightarrow>
                  (Inr \<lparr>h_url = u, h_path = pth,
                        entries = map (\<lambda>(k, v). (KStr k, v)) es,
                        entryKeys = rev (sort (map fst es))\<rparr>, w1)))"

text \<open>
  \<open>History.save(user, version)\<close>. \<open>ts\<close> is what \<open>datetime.now().timestamp()\<close> returns,
  \<open>fdate\<close> the formatted date of the second reading of the clock. The entry is stored
  under the key \<open>ts\<close> (a dictionary assignment: a new key is added at the end, an existing
  key keeps its place and gets the new value) and the whole dictionary is written to the
  file. \<open>entryKeys\<close> is not assigned.
\<close>

definition History_save ::
  "env \<Rightarrow> rat \<Rightarrow> string \<Rightarrow> string \<Rightarrow> string \<Rightarrow> history \<Rightarrow> world \<Rightarrow> history \<times> world" where
  "History_save ev ts fdate usr vers h w =
     (let es = AList.update (KFloat ts) \<lparr>user = usr, formatted_date = fdate, version = vers\<rparr>
                 (entries h)
      in (h\<lparr>entries := es\<rparr>, write_text w (h_path h) (json_dump ev es)))"

section \<open>Page\<close>

text \<open>
  The attributes of a \<open>Page\<close>. \<open>content\<close>, \<open>_html\<close> and \<open>body\<close> are set by \<open>load\<close> and
  \<open>render\<close> (the web layer assigns \<open>body\<close> too); \<open>None\<close> is an attribute not yet set, whose
  use raises \<open>AttributeError\<close>.
\<close>

record page =
  p_path :: string
  p_url :: string
  p_meta :: "(string \<times> string) list"
  p_history :: history
  p_content :: "string option"
  p_html :: "string option"
  p_body :: "string option"

text \<open>The path of the history file, as \<open>Page.__init__\<close> computes it:
  \<^verbatim>\<open>path.replace("\\" + url + ".md", "/history/" + url + ".json")\<close>\<close>

definition history_path :: "string \<Rightarrow> string \<Rightarrow> string" where
  "history_path pth u = replace ([bslash] @ u @ ''.md'') (''/history/'' @ u @ ''.json'') pth"

definition Page_load :: "page \<Rightarrow> world \<Rightarrow> error + page" where
  "Page_load pg w =
     (case read_text w (p_path pg) of
        Inl e \<Rightarrow> Inl e
      | Inr text \<Rightarrow> Inr (pg\<lparr>p_content := Some text\<rparr>))"

definition Page_render :: "env \<Rightarrow> page \<Rightarrow> error + page" where
  "Page_render ev pg =
     (case p_content pg of
        None \<Rightarrow> Inl AttributeError
      | Some text \<Rightarrow>
          (case process ev text of
             Inl e \<Rightarrow> Inl e
           | Inr (final, markdown, meta) \<Rightarrow>
               Inr (pg\<lparr>p_html := Some final, p_body := Some markdown, p_meta := meta\<rparr>)))"

text \<open>\<open>Page.__init__(path, url, new)\<close>: what the constructor raises or the page, and the
  file system afterwards.\<close>

definition Page_init :: "env \<Rightarrow> string \<Rightarrow> string \<Rightarrow> bool \<Rightarrow> world \<Rightarrow> (error + page) \<times> world" where
  "Page_init ev pth u new w =
     (case History_init ev (history_path pth u) u w of
        (Inl e, w1) \<Rightarrow> (Inl e, w1)
      | (Inr h, w1) \<Rightarrow>
          (let pg = \<lparr>p_path = pth, p_url = u, p_meta = [], p_history = h,
                     p_content = None, p_html = None, p_body = None\<rparr>
           in if new then (Inr pg, w1)
              else (case Page_load pg w1 of
                      Inl e \<Rightarrow> (Inl e, w1)
                    | Inr pg1 \<Rightarrow>
                        (case Page_render ev pg1 of
                           Inl e \<Rightarrow> (Inl e, w1)
                         | Inr pg2 \<Rightarrow> (Inr pg2, w1)))))"

text \<open>The text \<open>Page.save\<close> writes before the body: one line per metadata item, then an
  empty line.\<close>

definition meta_header :: "(string \<times> string) list \<Rightarrow> string" where
  "meta_header meta = concat (map (\<lambda>(k, v). k @ '': '' @ v @ [nl]) meta) @ [nl]"

text \<open>
  \<open>Page.save(user, update)\<close>: what it raises (or nothing), the page object and the file
  system afterwards. \<open>ts\<close> and \<open>fdate\<close> are the clock readings of \<open>History.save\<close>.
\<close>

definition Page_save ::
  "env \<Rightarrow> rat \<Rightarrow> string \<Rightarrow> string \<Rightarrow> bool \<Rightarrow> page \<Rightarrow> world \<Rightarrow> (error + unit) \<times> page \<times> world" where
  "Page_save ev ts fdate usr update pg w =
     (let folder = os_path_dirname ev (p_path pg)
      in case (if \<not> os_path_exists w folder then os_makedirs w folder else Inr w) of
           Inl e \<Rightarrow> (Inl e, pg, w)
         | Inr w1 \<Rightarrow>
             (case p_body pg of
                None \<Rightarrow> (Inl AttributeError, pg, write_text w1 (p_path pg) (meta_header (p_meta pg)))
              | Some b \<Rightarrow>
                  (let body' = replace [cr, nl] [nl] b;
                       w2 = write_text w1 (p_path pg) (meta_header (p_meta pg) @ body');
                       (h, w3) = History_save ev ts fdate usr body' (p_history pg) w2;
                       pg1 = pg\<lparr>p_history := h\<rparr>
                   in if update then
                        (case Page_load pg1 w3 of
                           Inl e \<Rightarrow> (Inl e, pg1, w3)
                         | Inr pg2 \<Rightarrow>
                             (case Page_render ev pg2 of
                                Inl e \<Rightarrow> (Inl e, pg2, w3)
                              | Inr pg3 \<Rightarrow> (Inr (), pg3, w3)))
                      else (Inr (), pg1, w3))))"

text \<open>The properties \<open>title\<close>, \<open>tags\<close>, \<open>rating\<close> and \<open>flag\<close>, and \<open>getattr(page, key)\<close> for
  the data attributes and these properties. The \<open>History\<close> object and the methods of a
  page are not values of this model: their names are treated like unknown names.\<close>

datatype attr = AStr string | AInt int | AMeta "(string \<times> string) list"

definition Page_title :: "page \<Rightarrow> attr" where
  "Page_title pg = (case map_of (p_meta pg) ''title'' of Some v \<Rightarrow> AStr v | None \<Rightarrow> AStr (p_url pg))"

definition Page_tags :: "page \<Rightarrow> attr" where
  "Page_tags pg = (case map_of (p_meta pg) ''tags'' of Some v \<Rightarrow> AStr v | None \<Rightarrow> AStr [])"

definition Page_rating :: "page \<Rightarrow> attr" where
  "Page_rating pg = (case map_of (p_meta pg) ''rating'' of Some v \<Rightarrow> AStr v | None \<Rightarrow> AInt 0)"

definition Page_flag :: "page \<Rightarrow> attr" where
  "Page_flag pg = (case map_of (p_meta pg) ''flag'' of Some v \<Rightarrow> AStr v | None \<Rightarrow> AInt 0)"

definition opt_attr :: "string option \<Rightarrow> error + attr" where
  "opt_attr v = (case v of None \<Rightarrow> Inl AttributeError | Some x \<Rightarrow> Inr (AStr x))"

definition getattr :: "page \<Rightarrow> string \<Rightarrow> error + attr" where
  "getattr pg name =
     (if name = ''path'' then Inr (AStr (p_path pg))
      else if name = ''url'' then Inr (AStr (p_url pg))
      else if name = ''_meta'' \<or> name = ''meta'' then Inr (AMeta (p_meta pg))
      else if name = ''content'' then opt_attr (p_content pg)
      else if name = ''_html'' \<or> name = ''html'' then opt_attr (p_html pg)
      else if name = ''body'' then opt_attr (p_body pg)
      else if name = ''title'' then Inr (Page_title pg)
      else if name = ''tags'' then Inr (Page_tags pg)
      else if name = ''rating'' then Inr (Page_rating pg)
      else if name = ''flag'' then Inr (Page_flag pg)
      else Inl AttributeError)"

section \<open>Wiki\<close>

definition Wiki_path :: "env \<Rightarrow> string \<Rightarrow> string \<Rightarrow> string" where
  "Wiki_path ev root_dir u = os_path_join ev root_dir (u @ ''.md'')"

definition Wiki_exists :: "env \<Rightarrow> string \<Rightarrow> string \<Rightarrow> world \<Rightarrow> bool" where
  "Wiki_exists ev root_dir u w = os_path_exists w (Wiki_path ev root_dir u)"

text \<open>\<open>Wiki.get\<close>: \<open>None\<close> is Python's \<open>None\<close>.\<close>

definition Wiki_get :: "env \<Rightarrow> string \<Rightarrow> string \<Rightarrow> world \<Rightarrow> (error + page option) \<times> world" where
  "Wiki_get ev root_dir u w =
     (let pth = Wiki_path ev root_dir u
      in if Wiki_exists ev root_dir u w then
           (case Page_init ev pth u False w of
              (Inl e, w1) \<Rightarrow> (Inl e, w1)
            | (Inr pg, w1) \<Rightarrow> (Inr (Some pg), w1))
         else (Inr None, w))"

text \<open>\<open>Wiki.move\<close>.\<close>

definition Wiki_move :: "env \<Rightarrow> string \<Rightarrow> string \<Rightarrow> string \<Rightarrow> world \<Rightarrow> (error + unit) \<times> world" where
  "Wiki_move ev root_dir u newurl w =
     (let source = os_path_join ev root_dir u @ ''.md'';
          target = os_path_join ev root_dir newurl @ ''.md'';
          root_n = os_path_normpath ev root_dir;
          common = commonprefix root_n (os_path_normpath ev target)
      in if length common < length root_n then (Inl RuntimeError, w)
         else
           (let folder = os_path_dirname ev target
            in case (if \<not> os_path_exists w folder then os_makedirs w folder else Inr w) of
                 Inl e \<Rightarrow> (Inl e, w)
               | Inr w1 \<Rightarrow>
                   (case os_rename w1 source target of
                      Inl e \<Rightarrow> (Inl e, w1)
                    | Inr w2 \<Rightarrow> (Inr (), w2))))"

text \<open>\<open>Wiki.delete\<close>. \<open>page.history\<close> on \<open>None\<close> would raise \<open>AttributeError\<close>.\<close>

definition Wiki_delete :: "env \<Rightarrow> string \<Rightarrow> string \<Rightarrow> world \<Rightarrow> (error + bool) \<times> world" where
  "Wiki_delete ev root_dir u w =
     (let pth = Wiki_path ev root_dir u
      in case Wiki_get ev root_dir u w of
           (Inl e, w1) \<Rightarrow> (Inl e, w1)
         | (Inr pg_opt, w1) \<Rightarrow>
             if \<not> Wiki_exists ev root_dir u w1 then (Inr False, w1)
             else (case pg_opt of
                     None \<Rightarrow> (Inl AttributeError, w1)
                   | Some pg \<Rightarrow>
                       (case os_remove w1 (h_path (p_history pg)) of
                          Inl e \<Rightarrow> (Inl e, w1)
                        | Inr w2 \<Rightarrow>
                            (case os_remove w2 pth of
                               Inl e \<Rightarrow> (Inl e, w2)
                             | Inr w3 \<Rightarrow> (Inr True, w3)))))"

text \<open>
  \<open>Wiki.index_by(key)\<close>, on the list \<open>self.index()\<close> returns. The dictionary \<open>pages\<close> maps
  an attribute value to a list of pages or to Python's \<open>None\<close> (here \<open>None\<close>). In
  \<^verbatim>\<open>pre = pages.get(value, [])\<close>
  \<^verbatim>\<open>pages[value] = pre.append(page)\<close>
  an \<open>OrderedDict\<close> as value cannot be hashed (\<open>TypeError\<close>), \<open>append\<close> on \<open>None\<close> raises
  \<open>AttributeError\<close>, and \<open>append\<close> on a list returns \<open>None\<close>.
\<close>

fun index_by_loop ::
  "page list \<Rightarrow> string \<Rightarrow> (attr \<times> page list option) list \<Rightarrow> error + (attr \<times> page list option) list" where
  "index_by_loop [] name pages = Inr pages"
| "index_by_loop (pg # rest) name pages =
     (case getattr pg name of
        Inl e \<Rightarrow> Inl e
      | Inr (AMeta m) \<Rightarrow> Inl TypeError
      | Inr v \<Rightarrow>
          (let pre = (case map_of pages v of None \<Rightarrow> Some [] | Some x \<Rightarrow> x)
           in case pre of
                None \<Rightarrow> Inl AttributeError
              | Some l \<Rightarrow> index_by_loop rest name (AList.update v None pages)))"

definition index_by :: "page list \<Rightarrow> string \<Rightarrow> error + (attr \<times> page list option) list" where
  "index_by index_pages name = index_by_loop index_pages name []"

section \<open>Notions used to state the properties\<close>

text \<open>Calls of \<open>History.save\<close> one after the other on one \<open>History\<close> object: each call is
  its two clock readings, the user and the version text. \<open>saved_entry\<close> is the key and
  the entry a call stores.\<close>

fun History_saves ::
  "env \<Rightarrow> (rat \<times> string \<times> string \<times> string) list \<Rightarrow> history \<Rightarrow> world \<Rightarrow> history \<times> world" where
  "History_saves ev [] h w = (h, w)"
| "History_saves ev ((ts, fdate, usr, vers) # calls) h w =
     (case History_save ev ts fdate usr vers h w of (h', w') \<Rightarrow> History_saves ev calls h' w')"

definition saved_entry :: "rat \<times> string \<times> string \<times> string \<Rightarrow> key \<times> entry" where
  "saved_entry c =
     (case c of (ts, fdate, usr, vers) \<Rightarrow>
        (KFloat ts, \<lparr>user = usr, formatted_date = fdate, version = vers\<rparr>))"




section \<open>An environment for the worked examples\<close>

text \<open>
  The examples below run the model in a small concrete environment: POSIX paths; a
  stand-in for the renderer that returns the text as its HTML and, for the header lines
  \<open>key: value\<close> before the first empty line, the dictionary from the lower-case key to
  the one-line value; a stand-in for \<open>str(a / b)\<close> that prints an exact quotient as
  Python does (\<open>6.0\<close>) and has no answer otherwise; a JSON reader that knows the empty
  object only, and a JSON writer that writes the number of entries. \<open>example_env_nt\<close> is
  the same with a join that puts a backslash between its arguments and a \<open>dirname\<close> that
  cuts at the last slash or backslash, as \<open>ntpath.join\<close> and \<open>ntpath.dirname\<close> do for
  relative paths without a drive.
\<close>

definition example_md :: "string \<Rightarrow> string \<times> (string \<Rightarrow> string list option)" where
  "example_md text =
     (text,
      (case split_once [nl, nl] text of
         None \<Rightarrow> Map.empty
       | Some (hdr, _) \<Rightarrow>
           map_of (map (\<lambda>line. (lower (meta_key line),
                                 [strip (drop (Suc (length (meta_key line))) line)]))
                    (filter (\<lambda>line. CHR '':'' \<in> set line) (split_char nl hdr)))))"

definition example_truediv :: "int \<Rightarrow> int \<Rightarrow> string option" where
  "example_truediv a b = (if b dvd a then Some (str_int (a div b) @ ''.0'') else None)"

definition example_env :: env where
  "example_env =
     \<lparr>md_convert = example_md,
      str_truediv = example_truediv,
      url_for = (\<lambda>u. ''/'' @ u),
      json_load = (\<lambda>text. if text = ''{}\<newline>'' then Some [] else None),
      json_dump = (\<lambda>es. ''entries: '' @ str_nat (length es)),
      os_path_join = posix_join,
      os_path_normpath = posix_normpath,
      os_path_dirname = posix_dirname\<rparr>"

definition example_env_nt :: env where
  "example_env_nt =
     example_env
       \<lparr>os_path_join := (\<lambda>a b. a @ [bslash] @ b),
        os_path_dirname :=
          (\<lambda>p. rev (dropWhile (\<lambda>c. c = CHR ''/'' \<or> c = bslash)
                     (dropWhile (\<lambda>c. c \<noteq> CHR ''/'' \<and> c \<noteq> bslash) (rev p))))\<rparr>"

text \<open>A content directory with one page, and a loaded page, for the examples.\<close>

definition wiki_world :: world where
  "wiki_world = \<lparr>files = [''/wiki/a.md'' \<mapsto> ''text''], dirs = {''/wiki''}\<rparr>"

definition home_page :: page where
  "home_page =
     \<lparr>p_path = ''/wiki/home.md'', p_url = ''home'', p_meta = [(''title'', ''Home'')],
      p_history = \<lparr>h_url = ''home'', h_path = ''/wiki/history/home.json'', entries = [], entryKeys = []\<rparr>,
      p_content = Some ''title: Home\<newline>\<newline>welcome'', p_html = Some ''welcome'',
      p_body = Some ''welcome''\<rparr>"

text \<open>An empty file system, the history loaded from it, and a header with the three
  reserved keys together with what the renderer reads from it.\<close>

definition empty_world :: world where
  "empty_world = \<lparr>files = Map.empty, dirs = {}\<rparr>"

definition fresh_history :: history where
  "fresh_history = \<lparr>h_url = ''a'', h_path = ''/wiki/history/a.json'', entries = [], entryKeys = []\<rparr>"



text \<open>Content directories with the page \<open>hello\<close>: one joined with a backslash and its
  page as \<open>Wiki.get\<close> loads it, one whose page has no empty line, one on POSIX.\<close>

definition hello_world :: world where
  "hello_world =
     \<lparr>files = [''wiki'' @ [bslash] @ ''hello.md'' \<mapsto> ''title: Hello\<newline>\<newline>hi''],
      dirs = {''wiki''}\<rparr>"

definition hello_page :: page where
  "hello_page =
     \<lparr>p_path = ''wiki'' @ [bslash] @ ''hello.md'', p_url = ''hello'',
      p_meta = [(''title'', ''Hello'')],
      p_history = \<lparr>h_url = ''hello'', h_path = ''wiki/history/hello.json'',
                    entries = [], entryKeys = []\<rparr>,
      p_content = Some ''title: Hello\<newline>\<newline>hi'',
      p_html = Some ''title: Hello\<newline>\<newline>hi'',
      p_body = Some ''hi''\<rparr>"

definition broken_world :: world where
  "broken_world =
     \<lparr>files = [''wiki'' @ [bslash] @ ''hello.md'' \<mapsto> ''no separator''], dirs = {''wiki''}\<rparr>"

definition posix_world :: world where
  "posix_world =
     \<lparr>files = [''/wiki/hello.md'' \<mapsto> ''title: Hello\<newline>\<newline>hi''], dirs = {''/wiki''}\<rparr>"

text \<open>A new page as \<open>Wiki.get_bare\<close> constructs it in the backslash directory, with a
  body assigned.\<close>

definition draft_page :: page where
  "draft_page =
     \<lparr>p_path = ''wiki'' @ [bslash] @ ''draft.md'', p_url = ''draft'', p_meta = [],
      p_history = \<lparr>h_url = ''draft'', h_path = ''wiki/history/draft.json'',
                    entries = [], entryKeys = []\<rparr>,
      p_content = None, p_html = None,
      p_body = Some (''first line'' @ [cr, nl] @ ''second line'')\<rparr>"

section \<open>Properties of the URL normalizer\<close>

text \<open>A string is trimmed when it neither starts nor ends with white space; it is
  canonical when it is trimmed, has no space and no backslash, and \<open>lower\<close> leaves
  every character of it alone.\<close>

definition trimmed :: "string \<Rightarrow> bool" where
  "trimmed s = (s = [] \<or> (\<not> is_space (hd s) \<and> \<not> is_space (last s)))"

lemma of_char_lower_char:
  "of_char (lower_char c) = (let n = (of_char c :: nat) in
      if (65 \<le> n \<and> n \<le> 90) \<or> (192 \<le> n \<and> n \<le> 222 \<and> n \<noteq> 215) then n + 32 else n)"
  by (auto simp: lower_char_def Let_def)

lemma lower_char_idem: "lower_char (lower_char c) = lower_char c"
proof -
  have "(of_char (lower_char (lower_char c)) :: nat) = of_char (lower_char c)"
    by (auto simp: of_char_lower_char Let_def)
  then show ?thesis by simp
qed

lemma is_space_lower_char: "is_space (lower_char c) = is_space c"
  by (auto simp: is_space_def of_char_lower_char Let_def)

lemma collapse_spaces_id: "CHR '' '' \<notin> set s \<Longrightarrow> collapse_spaces s = s"
  by (induction s rule: collapse_spaces.induct) auto

lemma dropWhile_id: "xs = [] \<or> \<not> P (hd xs) \<Longrightarrow> dropWhile P xs = xs"
  by (cases xs) auto

lemma strip_id: "trimmed s \<Longrightarrow> strip s = s"
proof -
  assume t: "trimmed s"
  then have "dropWhile is_space s = s" by (intro dropWhile_id) (auto simp: trimmed_def)
  moreover have "dropWhile is_space (rev s) = rev s"
    using t by (intro dropWhile_id) (auto simp: trimmed_def hd_rev)
  ultimately show ?thesis by (simp add: strip_def)
qed

lemma last_dropWhile: "dropWhile P xs \<noteq> [] \<Longrightarrow> last (dropWhile P xs) = last xs"
  by (induction xs) auto

lemma trimmed_strip: "trimmed (strip s)"
proof -
  define t where "t = dropWhile is_space s"
  define u where "u = dropWhile is_space (rev t)"
  have t: "t = [] \<or> \<not> is_space (hd t)"
    unfolding t_def by (metis hd_dropWhile)
  have u: "u = [] \<or> \<not> is_space (hd u)"
    unfolding u_def by (metis hd_dropWhile)
  have "strip s = rev u" by (simp add: strip_def t_def u_def)
  moreover have "u \<noteq> [] \<Longrightarrow> last u = hd t"
    unfolding u_def using last_dropWhile [of is_space "rev t"]
    by (metis dropWhile.simps(1) last_rev)
  moreover have "u \<noteq> [] \<Longrightarrow> t \<noteq> []" unfolding u_def by auto
  ultimately show ?thesis using t u
    by (auto simp: trimmed_def hd_rev last_rev)
qed

lemma replace_ne_single: "replace_ne [a] [b] s = map (\<lambda>x. if x = a then b else x) s"
  by (induction s) auto

lemma replace_ne_absent: "old \<noteq> [] \<Longrightarrow> hd old \<notin> set s \<Longrightarrow> replace_ne old new s = s"
proof (induction s)
  case Nil then show ?case by simp
next
  case (Cons c cs)
  then have "\<not> prefix old (c # cs)" by (cases old) auto
  with Cons show ?case by simp
qed

lemma replace_ne_set: "set (replace_ne old new s) \<subseteq> set s \<union> set new"
proof (induction old new s rule: replace_ne.induct)
  case (1 old new) then show ?case by simp
next
  case (2 old new c cs)
  show ?case
  proof (cases "old \<noteq> [] \<and> prefix old (c # cs)")
    case True
    with 2 have "set (replace_ne old new (drop (length old - 1) cs)) \<subseteq> set (drop (length old - 1) cs) \<union> set new" by simp
    moreover have "set (drop (length old - 1) cs) \<subseteq> set cs" by (rule set_drop_subset)
    ultimately show ?thesis using True by auto
  next
    case False
    with 2 show ?thesis by auto
  qed
qed

lemma replace_ne_ends:
  "s \<noteq> [] \<Longrightarrow> new \<noteq> [] \<Longrightarrow>
     replace_ne old new s \<noteq> [] \<and>
     (hd (replace_ne old new s) = hd s \<or> hd (replace_ne old new s) = hd new) \<and>
     (last (replace_ne old new s) = last s \<or> last (replace_ne old new s) = last new)"
proof (induction old new s rule: replace_ne.induct)
  case (1 old new) then show ?case by simp
next
  case (2 old new c cs)
  show ?case
  proof (cases "old \<noteq> [] \<and> prefix old (c # cs)")
    case True
    let ?r = "drop (length old - 1) cs"
    show ?thesis
    proof (cases "?r = []")
      case True
      with \<open>old \<noteq> [] \<and> prefix old (c # cs)\<close> 2 show ?thesis by simp
    next
      case False
      then have "cs \<noteq> []" by auto
      have "last ?r = last cs" using False by (simp add: last_drop)
      with 2 True False \<open>cs \<noteq> []\<close> show ?thesis by (auto simp: hd_append)
    qed
  next
    case False
    show ?thesis
    proof (cases "cs = []")
      case True with False 2 show ?thesis by simp
    next
      case nonempty: False
      with False 2 show ?thesis by auto
    qed
  qed
qed


lemma trimmed_map:
  assumes f: "\<And>c. \<not> is_space c \<Longrightarrow> \<not> is_space (f c)" and t: "trimmed s"
  shows "trimmed (map f s)"
proof (cases "s = []")
  case True then show ?thesis by (simp add: trimmed_def)
next
  case False
  with t have "\<not> is_space (hd s)" "\<not> is_space (last s)" by (simp_all add: trimmed_def)
  then have "\<not> is_space (f (hd s))" "\<not> is_space (f (last s))" by (simp_all only: f not_False_eq_True)
  with False show ?thesis by (simp add: trimmed_def hd_map last_map)
qed

lemma trimmed_replace_ne:
  assumes "trimmed s" "new \<noteq> []" "\<not> is_space (hd new)" "\<not> is_space (last new)"
  shows "trimmed (replace_ne old new s)"
proof (cases "s = []")
  case True then show ?thesis by (simp add: trimmed_def)
next
  case False
  from replace_ne_ends [OF False assms(2), of old] assms False
  show ?thesis by (auto simp: trimmed_def)
qed

lemma fixed_insert:
  "\<forall>c \<in> A. f c = c \<Longrightarrow> f a = a \<Longrightarrow> B \<subseteq> A \<union> {a} \<Longrightarrow> \<forall>c \<in> B. f c = c"
  by auto

lemma absent_insert: "x \<notin> A \<Longrightarrow> B \<subseteq> A \<union> {a} \<Longrightarrow> x \<noteq> a \<Longrightarrow> x \<notin> B"
  by auto

definition canonical :: "string \<Rightarrow> bool" where
  "canonical r = (CHR '' '' \<notin> set r \<and> bslash \<notin> set r \<and> trimmed r \<and> (\<forall>c \<in> set r. lower_char c = c))"

lemma clean_url_fixes_canonical:
  assumes "canonical r"
  shows "clean_url r = r"
proof -
  from assms have sp: "CHR '' '' \<notin> set r" and bs: "bslash \<notin> set r"
    and tr: "trimmed r" and lo: "\<forall>c \<in> set r. lower_char c = c"
    by (auto simp: canonical_def)
  have 1: "strip (collapse_spaces r) = r" using sp tr by (simp add: collapse_spaces_id strip_id)
  have 2: "lower r = r" using lo by (simp add: lower_def map_idI)
  have 3: "replace '' '' ''_'' r = r" using sp by (simp add: replace_def replace_ne_absent)
  have 4: "replace [bslash, bslash] ''/'' r = r" using bs by (simp add: replace_def replace_ne_absent)
  have 5: "replace [bslash] ''/'' r = r" using bs by (simp add: replace_def replace_ne_absent)
  show ?thesis by (simp add: clean_url_def 1 2 3 4 5)
qed

lemma canonical_clean_url: "canonical (clean_url s)"
proof -
  define u1 where "u1 = strip (collapse_spaces s)"
  define u2 where "u2 = lower u1"
  define u3 where "u3 = replace_ne '' '' ''_'' u2"
  define u4 where "u4 = replace_ne [bslash, bslash] ''/'' u3"
  define u5 where "u5 = replace_ne [bslash] ''/'' u4"
  have r: "clean_url s = u5"
    by (simp add: clean_url_def replace_def u1_def u2_def u3_def u4_def u5_def)
  have t1: "trimmed u1" unfolding u1_def by (rule trimmed_strip)
  have t2: "trimmed u2" unfolding u2_def lower_def
    using _ t1 by (rule trimmed_map) (simp add: is_space_lower_char)
  have t3: "trimmed u3" unfolding u3_def
    using t2 by (rule trimmed_replace_ne) (simp_all add: is_space_def)
  have t4: "trimmed u4" unfolding u4_def
    using t3 by (rule trimmed_replace_ne) (simp_all add: is_space_def)
  have t5: "trimmed u5" unfolding u5_def
    using t4 by (rule trimmed_replace_ne) (simp_all add: is_space_def)
  have l2: "\<forall>c \<in> set u2. lower_char c = c"
    by (auto simp: u2_def lower_def lower_char_idem)
  have s3: "set u3 \<subseteq> set u2 \<union> {CHR ''_''}" unfolding u3_def
    using replace_ne_set [of "'' ''" "''_''" u2] by simp
  have s4: "set u4 \<subseteq> set u3 \<union> {CHR ''/''}" unfolding u4_def
    using replace_ne_set [of "[bslash, bslash]" "''/''" u3] by simp
  have s5: "set u5 \<subseteq> set u4 \<union> {CHR ''/''}" unfolding u5_def
    using replace_ne_set [of "[bslash]" "''/''" u4] by simp
  have f1: "lower_char (CHR ''_'') = CHR ''_''" by (simp add: lower_char_def)
  have f2: "lower_char (CHR ''/'') = CHR ''/''" by (simp add: lower_char_def)
  have l3: "\<forall>c \<in> set u3. lower_char c = c" using l2 f1 s3 by (rule fixed_insert)
  have l4: "\<forall>c \<in> set u4. lower_char c = c" using l3 f2 s4 by (rule fixed_insert)
  have l5: "\<forall>c \<in> set u5. lower_char c = c" using l4 f2 s5 by (rule fixed_insert)
  have n3: "CHR '' '' \<notin> set u3" by (auto simp: u3_def replace_ne_single)
  have n4: "CHR '' '' \<notin> set u4" using n3 s4 by (rule absent_insert) simp
  have n5: "CHR '' '' \<notin> set u5" using n4 s5 by (rule absent_insert) simp
  have b5: "bslash \<notin> set u5" by (auto simp: u5_def replace_ne_single bslash_def)
  show ?thesis unfolding r canonical_def using n5 b5 t5 l5 by simp
qed

text \<open>
  Claim C8. The URL normalizer is total and idempotent: \<open>clean_url\<close> is a function from
  strings to strings that raises nothing (the model has no error result to return),
  normalizing a normalized string changes nothing, and the empty string is normalized
  to the empty string.
\<close>

theorem clean_url_idempotent: "clean_url (clean_url s) = clean_url s \<and> clean_url [] = []"
proof
  show "clean_url (clean_url s) = clean_url s"
    by (rule clean_url_fixes_canonical) (rule canonical_clean_url)
  show "clean_url [] = []"
    by (simp add: clean_url_def strip_def lower_def replace_def)
qed

section \<open>Properties of the split stage\<close>

lemma split_once_None:
  "sep \<noteq> [] \<Longrightarrow> (split_once sep s = None) = (\<not> (\<exists>a b. s = a @ sep @ b))"
proof (induction s)
  case Nil
  then show ?case by simp
next
  case (Cons c cs)
  show ?case
  proof (cases "prefix sep (c # cs)")
    case True
    then obtain b where "c # cs = sep @ b" by (auto simp: prefix_def)
    then have "c # cs = [] @ sep @ b" by simp
    then have "\<exists>a b. c # cs = a @ sep @ b" by blast
    with True show ?thesis by simp
  next
    case False
    have "(\<exists>a b. c # cs = a @ sep @ b) = (\<exists>a b. cs = a @ sep @ b)"
    proof
      assume "\<exists>a b. c # cs = a @ sep @ b"
      then obtain a b where ab: "c # cs = a @ sep @ b" by blast
      show "\<exists>a b. cs = a @ sep @ b"
      proof (cases a)
        case Nil
        with ab have "prefix sep (c # cs)" by (simp add: prefix_def)
        with False show ?thesis by simp
      next
        case (Cons x a')
        with ab have "cs = a' @ sep @ b" by simp
        then show ?thesis by blast
      qed
    next
      assume "\<exists>a b. cs = a @ sep @ b"
      then obtain a b where "cs = a @ sep @ b" by blast
      then have "c # cs = (c # a) @ sep @ b" by simp
      then show "\<exists>a b. c # cs = a @ sep @ b" by blast
    qed
    moreover have "(split_once sep (c # cs) = None) = (split_once sep cs = None)"
      using False by simp
    ultimately show ?thesis using Cons by simp
  qed
qed

lemma split_once_Some:
  "sep \<noteq> [] \<Longrightarrow> split_once sep s = Some (a, b) \<Longrightarrow>
     s = a @ sep @ b \<and> (\<forall>a' b'. s = a' @ sep @ b' \<longrightarrow> length a \<le> length a')"
proof (induction s arbitrary: a b)
  case Nil
  then show ?case by simp
next
  case (Cons c cs)
  show ?case
  proof (cases "prefix sep (c # cs)")
    case True
    with Cons.prems have "a = []" "b = drop (length sep) (c # cs)" by simp_all
    moreover from True have "c # cs = sep @ drop (length sep) (c # cs)"
      by (metis append_eq_conv_conj prefix_def)
    ultimately show ?thesis by simp
  next
    case False
    with Cons.prems obtain a0 where s0: "split_once sep cs = Some (a0, b)" and a: "a = c # a0"
      by (auto split: option.splits)
    from Cons.IH [OF Cons.prems(1) s0]
    have eq: "cs = a0 @ sep @ b" and least: "\<forall>a' b'. cs = a' @ sep @ b' \<longrightarrow> length a0 \<le> length a'"
      by simp_all
    have "length a \<le> length a'" if h: "c # cs = a' @ sep @ b'" for a' b'
    proof (cases a')
      case Nil
      with h have "prefix sep (c # cs)" by (simp add: prefix_def)
      with False show ?thesis by simp
    next
      case (Cons x a'')
      with h have "cs = a'' @ sep @ b'" by simp
      with least have "length a0 \<le> length a''" by blast
      with a Cons show ?thesis by simp
    qed
    with eq a show ?thesis by simp
  qed
qed

lemma process_pre_id: "process_pre input = input"
  by (simp add: process_pre_def preprocessors_def)

lemma process_split_error: "split_raw input = Inl e \<Longrightarrow> process ev input = Inl e"
  by (simp add: process_def process_pre_id split: prod.splits)

text \<open>
  Claim C4. The split stage divides the pre-processed text at the first empty line (the
  first occurrence of two newlines) into the raw metadata block and the markdown body:
  the two parts with the separator between them are the text, and no separator starts
  earlier. It fails, with \<open>ValueError\<close>, if and only if the text has no such separator,
  and then \<open>process\<close> as a whole fails with that error.
\<close>

theorem split_raw_first_blank_line:
  "((split_raw pre = Inl ValueError \<and> \<not> (\<exists>a b. pre = a @ [nl, nl] @ b))
    \<or> (\<exists>meta_raw markdown.
          split_raw pre = Inr (meta_raw, markdown) \<and>
          pre = meta_raw @ [nl, nl] @ markdown \<and>
          (\<forall>a b. pre = a @ [nl, nl] @ b \<longrightarrow> length meta_raw \<le> length a)))
   \<and> (\<not> (\<exists>a b. pre = a @ [nl, nl] @ b) \<longrightarrow> process ev pre = Inl ValueError)"
proof (cases "split_once [nl, nl] pre")
  case None
  then have no: "\<not> (\<exists>a b. pre = a @ [nl, nl] @ b)"
    using split_once_None [of "[nl, nl]" pre] by simp
  from None have "split_raw pre = Inl ValueError" by (simp add: split_raw_def)
  with no process_split_error [of pre ValueError ev] show ?thesis by simp
next
  case (Some ab)
  obtain m b where ab: "ab = (m, b)" by (cases ab)
  with Some have s: "split_once [nl, nl] pre = Some (m, b)" by simp
  from split_once_Some [OF _ s]
  have *: "pre = m @ [nl, nl] @ b \<and> (\<forall>a' b'. pre = a' @ [nl, nl] @ b' \<longrightarrow> length m \<le> length a')"
    by simp
  then have ex: "\<exists>a b. pre = a @ [nl, nl] @ b" by blast
  have "split_raw pre = Inr (m, b)" using s by (simp add: split_raw_def)
  with * ex show ?thesis by blast
qed

theorem split_raw_first_blank_line_witness:
  "split_raw ''title: T\<newline>\<newline>one\<newline>\<newline>two'' = Inr (''title: T'', ''one\<newline>\<newline>two'')
   \<and> split_raw ''no separator\<newline>here'' = Inl ValueError
   \<and> process example_env ''no separator\<newline>here'' = Inl ValueError"
proof -
  have a: "split_raw ''title: T\<newline>\<newline>one\<newline>\<newline>two'' = Inr (''title: T'', ''one\<newline>\<newline>two'')"
    by (simp add: split_raw_def nl_def)
  have n: "split_once [nl, nl] ''no separator\<newline>here'' = None"
    by (simp add: nl_def)
  then have no: "\<not> (\<exists>a b. ''no separator\<newline>here'' = a @ [nl, nl] @ b)"
    using split_once_None [of "[nl, nl]" "''no separator\<newline>here''"] by simp
  from split_raw_first_blank_line [of "''no separator\<newline>here''" example_env] no
  have "split_raw ''no separator\<newline>here'' = Inl ValueError
        \<and> process example_env ''no separator\<newline>here'' = Inl ValueError"
    by blast
  with a show ?thesis by simp
qed

section \<open>Properties of \<open>Wiki.move\<close>\<close>

lemma Wiki_move_rejects:
  "length (commonprefix (os_path_normpath ev root_dir)
             (os_path_normpath ev (os_path_join ev root_dir newurl @ ''.md'')))
     < length (os_path_normpath ev root_dir)
   \<Longrightarrow> Wiki_move ev root_dir u newurl w = (Inl RuntimeError, w)"
  by (simp add: Wiki_move_def Let_def)

text \<open>
  Claim C1. \<open>move\<close> must fail, before any change to the file system, whenever the
  normalized target lies outside the content root, also for a target that merely shares
  the root as a string prefix. The code compares the normalized paths as strings
  (\<open>os.path.commonprefix\<close>): with the root \<open>/wiki\<close> it rejects the new url
  \<open>../../etc/passwd\<close> and leaves the file system as it is, but it accepts \<open>../wiki2/x\<close>,
  whose target normalizes to \<open>/wiki2/x.md\<close>, and renames the page to it.
\<close>

theorem move_accepts_sibling_of_root:
  "Wiki_move example_env ''/wiki'' ''a'' ''../../etc/passwd'' wiki_world = (Inl RuntimeError, wiki_world)
   \<and> posix_normpath (posix_join ''/wiki'' ''../wiki2/x'' @ ''.md'') = ''/wiki2/x.md''
   \<and> fst (Wiki_move example_env ''/wiki'' ''a'' ''../wiki2/x'' wiki_world) = Inr ()
   \<and> files (snd (Wiki_move example_env ''/wiki'' ''a'' ''../wiki2/x'' wiki_world))
        ''/wiki/../wiki2/x.md'' = Some ''text''
   \<and> files (snd (Wiki_move example_env ''/wiki'' ''a'' ''../wiki2/x'' wiki_world))
        ''/wiki/a.md'' = None"
proof -
  have 1: "Wiki_move example_env ''/wiki'' ''a'' ''../../etc/passwd'' wiki_world = (Inl RuntimeError, wiki_world)"
    by (rule Wiki_move_rejects) code_simp
  have 2: "posix_normpath (posix_join ''/wiki'' ''../wiki2/x'' @ ''.md'') = ''/wiki2/x.md''"
    by code_simp
  have 3: "fst (Wiki_move example_env ''/wiki'' ''a'' ''../wiki2/x'' wiki_world) = Inr ()"
    by code_simp
  have 4: "files (snd (Wiki_move example_env ''/wiki'' ''a'' ''../wiki2/x'' wiki_world))
        ''/wiki/../wiki2/x.md'' = Some ''text''"
    by code_simp
  have 5: "files (snd (Wiki_move example_env ''/wiki'' ''a'' ''../wiki2/x'' wiki_world))
        ''/wiki/a.md'' = None"
    by code_simp
  from 1 2 3 4 5 show ?thesis by (intro conjI)
qed

section \<open>Properties of the path of the history file\<close>

lemma replace_ne_split_once:
  "old \<noteq> [] \<Longrightarrow>
   replace_ne old new s =
     (case split_once old s of None \<Rightarrow> s | Some (a, b) \<Rightarrow> a @ new @ replace_ne old new b)"
proof (induction s)
  case Nil
  then show ?case by simp
next
  case (Cons c cs)
  show ?case
  proof (cases "prefix old (c # cs)")
    case True
    have "drop (length old - 1) cs = drop (length old) (c # cs)"
      using Cons.prems by (cases old) simp_all
    with True Cons.prems show ?thesis by simp
  next
    case False
    with Cons show ?thesis by (simp split: option.splits)
  qed
qed

lemma split_once_only_at_end:
  assumes "old \<noteq> []" and "\<forall>a b. r @ old = a @ old @ b \<longrightarrow> b = []"
  shows "split_once old (r @ old) = Some (r, [])"
proof (cases "split_once old (r @ old)")
  case None
  with split_once_None [OF assms(1), of "r @ old"] have "\<not> (\<exists>a b. r @ old = a @ old @ b)" by simp
  moreover have "r @ old = r @ old @ []" by simp
  ultimately show ?thesis by blast
next
  case (Some ab)
  obtain a b where "ab = (a, b)" by (cases ab)
  with Some have s: "split_once old (r @ old) = Some (a, b)" by simp
  from split_once_Some [OF assms(1) s] have eq: "r @ old = a @ old @ b" by simp
  with assms(2) have "b = []" by blast
  with eq have "a = r" by simp
  with s \<open>b = []\<close> show ?thesis by simp
qed

lemma only_at_end_split_once:
  assumes "old \<noteq> []" and "split_once old (r @ old) = Some (r, [])"
  shows "\<forall>a b. r @ old = a @ old @ b \<longrightarrow> b = []"
proof (intro allI impI)
  fix a b assume h: "r @ old = a @ old @ b"
  from split_once_Some [OF assms] h have "length r \<le> length a" by blast
  moreover from h have "length r + length old = length a + length old + length b"
    by (metis length_append add.assoc)
  ultimately show "b = []" by simp
qed

text \<open>
  Claim C6, as amended. When the content path is the root, a backslash, the url and
  \<open>.md\<close>, and this backslash-url-\<open>.md\<close> text occurs in the path only at its end, then the
  history path of the page is the root followed by \<open>/history/\<close>, the url and \<open>.json\<close>:
  for the url \<open>a/b\<close> the file \<open>b.json\<close> in the directory \<open>history/a\<close> under the root.
\<close>

theorem history_path_backslash:
  assumes "\<forall>a b. root_dir @ [bslash] @ u @ ''.md'' = a @ ([bslash] @ u @ ''.md'') @ b \<longrightarrow> b = []"
  shows "history_path (root_dir @ [bslash] @ u @ ''.md'') u = root_dir @ ''/history/'' @ u @ ''.json''"
proof -
  let ?old = "[bslash] @ u @ ''.md''"
  have ne: "?old \<noteq> []" by simp
  from assms have "\<forall>a b. root_dir @ ?old = a @ ?old @ b \<longrightarrow> b = []" by simp
  from split_once_only_at_end [OF ne this]
  have "split_once ?old (root_dir @ ?old) = Some (root_dir, [])" .
  with replace_ne_split_once [OF ne, of "''/history/'' @ u @ ''.json''" "root_dir @ ?old"]
  have "replace_ne ?old (''/history/'' @ u @ ''.json'') (root_dir @ ?old)
          = root_dir @ ''/history/'' @ u @ ''.json''" by simp
  then show ?thesis by (simp add: history_path_def replace_def)
qed

theorem history_path_backslash_witness:
  "history_path ((''C:'' @ [bslash] @ ''wiki'') @ [bslash] @ ''a/b'' @ ''.md'') ''a/b''
     = (''C:'' @ [bslash] @ ''wiki'') @ ''/history/'' @ ''a/b'' @ ''.json''"
proof -
  let ?r = "''C:'' @ [bslash] @ ''wiki''"
  let ?old = "[bslash] @ ''a/b'' @ ''.md''"
  have "split_once ?old (?r @ ?old) = Some (?r, [])" by (simp add: bslash_def)
  from only_at_end_split_once [OF _ this]
  have "\<forall>a b. ?r @ [bslash] @ ''a/b'' @ ''.md'' = a @ ?old @ b \<longrightarrow> b = []" by simp
  from history_path_backslash [OF this] show ?thesis .
qed

text \<open>The claim as stated fails: with the POSIX separator the history path is the
  content path itself, and with a backslash it is \<open>{root}/history/a/b.json\<close>, not
  \<open>{root}/a/history/b.json\<close>.\<close>

theorem history_path_counterexample:
  "Wiki_path example_env ''/wiki'' ''a/b'' = ''/wiki/a/b.md''
   \<and> history_path (Wiki_path example_env ''/wiki'' ''a/b'') ''a/b'' = ''/wiki/a/b.md''
   \<and> history_path (Wiki_path example_env ''/wiki'' ''a/b'') ''a/b'' \<noteq> ''/wiki/a/history/b.json''
   \<and> Wiki_path example_env_nt ''wiki'' ''a/b'' = ''wiki'' @ [bslash] @ ''a/b.md''
   \<and> history_path (Wiki_path example_env_nt ''wiki'' ''a/b'') ''a/b'' = ''wiki/history/a/b.json''
   \<and> history_path (Wiki_path example_env_nt ''wiki'' ''a/b'') ''a/b'' \<noteq> ''wiki/a/history/b.json''"
  by code_simp

section \<open>Properties of \<open>Wiki.index_by\<close>\<close>

lemma set_update_cases: "x \<in> set (AList.update k v d) \<Longrightarrow> x = (k, v) \<or> x \<in> set d"
  by (induction d) (auto split: if_splits)

lemma index_by_loop_None:
  "index_by_loop ps name d = Inr d' \<Longrightarrow> (\<forall>x \<in> set d. snd x = None) \<Longrightarrow> (\<forall>x \<in> set d'. snd x = None)"
proof (induction ps arbitrary: d)
  case Nil
  then show ?case by simp
next
  case (Cons pg rest)
  from Cons.prems(1) obtain v where
    v: "getattr pg name = Inr v" and r: "index_by_loop rest name (AList.update v None d) = Inr d'"
    by (auto split: sum.splits attr.splits option.splits simp: Let_def)
  have "\<forall>x \<in> set (AList.update v None d). snd x = None"
    using Cons.prems(2) by (auto dest!: set_update_cases)
  with Cons.IH [OF r] show ?case by blast
qed


text \<open>
  Claim C9. \<open>index_by(key)\<close> should map every attribute value to the list of the pages
  that have it. In the code \<open>pages[value] = pre.append(page)\<close> stores what \<open>append\<close>
  returns: whenever \<open>index_by\<close> returns a dictionary, every value in it is Python's
  \<open>None\<close>; and when a second page has a value already seen, \<open>append\<close> is called on
  \<open>None\<close> and \<open>index_by\<close> raises \<open>AttributeError\<close>.
\<close>

theorem index_by_values_are_None:
  "index_by index_pages name = Inr d \<Longrightarrow> \<forall>x \<in> set d. snd x = None"
  unfolding index_by_def by (erule index_by_loop_None) simp

theorem index_by_values_are_None_witness:
  "index_by [home_page] ''title'' = Inr [(AStr ''Home'', None)]
   \<and> index_by [home_page, home_page\<lparr>p_url := ''home2''\<rparr>] ''title'' = Inl AttributeError"
proof -
  have a: "index_by [home_page] ''title'' = Inr [(AStr ''Home'', None)]"
    by (simp add: index_by_def home_page_def getattr_def Page_title_def)
  have b: "index_by [home_page, home_page\<lparr>p_url := ''home2''\<rparr>] ''title'' = Inl AttributeError"
    by (simp add: index_by_def home_page_def getattr_def Page_title_def)
  from index_by_values_are_None [OF a] a b show ?thesis by simp
qed

section \<open>Properties of the history store\<close>

lemma update_fresh: "k \<notin> fst ` set es \<Longrightarrow> AList.update k v es = es @ [(k, v)]"
  by (induction es) auto

lemma History_saves_appends:
  "distinct (map fst calls) \<Longrightarrow>
   \<forall>c \<in> set calls. KFloat (fst c) \<notin> fst ` set (entries h) \<Longrightarrow>
   History_saves ev calls h w = (h', w') \<Longrightarrow>
     entries h' = entries h @ map saved_entry calls \<and> entryKeys h' = entryKeys h \<and>
     h_path h' = h_path h \<and>
     (calls \<noteq> [] \<longrightarrow> files w' (h_path h) = Some (json_dump ev (entries h')))"
proof (induction calls arbitrary: h w)
  case Nil
  then show ?case by simp
next
  case (Cons c calls)
  obtain ts fdate usr vers where c: "c = (ts, fdate, usr, vers)" by (cases c)
  define e where "e = \<lparr>user = usr, formatted_date = fdate, version = vers\<rparr>"
  define h1 where "h1 = h\<lparr>entries := entries h @ [(KFloat ts, e)]\<rparr>"
  define w1 where "w1 = write_text w (h_path h) (json_dump ev (entries h @ [(KFloat ts, e)]))"
  from Cons.prems(2) c have fresh: "KFloat ts \<notin> fst ` set (entries h)" by simp
  then have step: "History_save ev ts fdate usr vers h w = (h1, w1)"
    by (simp add: History_save_def Let_def update_fresh e_def h1_def w1_def)
  with Cons.prems(3) c have rest: "History_saves ev calls h1 w1 = (h', w')" by simp
  have d: "distinct (map fst calls)" using Cons.prems(1) by simp
  have f: "\<forall>c' \<in> set calls. KFloat (fst c') \<notin> fst ` set (entries h1)"
    using Cons.prems(1,2) c by (auto simp: h1_def image_iff)
  from Cons.IH [OF d f rest]
  have ih: "entries h' = entries h1 @ map saved_entry calls" "entryKeys h' = entryKeys h1"
    "h_path h' = h_path h1"
    "calls \<noteq> [] \<longrightarrow> files w' (h_path h1) = Some (json_dump ev (entries h'))" by simp_all
  have last: "calls = [] \<Longrightarrow> files w' (h_path h) = Some (json_dump ev (entries h'))"
    using rest by (auto simp: w1_def h1_def write_text_def)
  from ih last show ?case
    by (auto simp: h1_def c saved_entry_def e_def)
qed

lemma History_init_loaded:
  "History_init ev pth u w0 = (Inr h, w1) \<Longrightarrow>
     (\<exists>es. entries h = map (\<lambda>(k, v). (KStr k, v)) es \<and> entryKeys h = rev (sort (map fst es)))"
  by (auto simp: History_init_def Let_def split: sum.splits option.splits)

text \<open>
  Claim C2, as amended. For a \<open>History\<close> object just constructed, calls of \<open>save\<close> whose
  time stamps differ from each other append their entries, in the order of the calls,
  after the entries loaded at construction: after N calls the entry map has N entries
  more, no loaded entry is changed or removed, and the file holds the whole map.
  \<open>entryKeys\<close> is the list of the loaded keys in descending order; \<open>save\<close> does not change
  it, so it does not list the entries saved after construction.
\<close>

theorem history_saves_append:
  assumes "History_init ev pth u w0 = (Inr h, w1)"
    and "distinct (map fst calls)"
    and "History_saves ev calls h w = (h', w')"
  shows "entries h' = entries h @ map saved_entry calls
         \<and> length (entries h') = length (entries h) + length calls
         \<and> (calls \<noteq> [] \<longrightarrow> files w' (h_path h) = Some (json_dump ev (entries h')))
         \<and> entryKeys h' = entryKeys h
         \<and> sorted (rev (entryKeys h))
         \<and> KStr ` set (entryKeys h) = fst ` set (entries h)
         \<and> length (entryKeys h) = length (entries h)"
proof -
  from History_init_loaded [OF assms(1)] obtain es where
    es: "entries h = map (\<lambda>(k, v). (KStr k, v)) es" "entryKeys h = rev (sort (map fst es))" by blast
  have fresh: "\<forall>c \<in> set calls. KFloat (fst c) \<notin> fst ` set (entries h)"
    by (auto simp: es)
  from History_saves_appends [OF assms(2) fresh assms(3)]
  have *: "entries h' = entries h @ map saved_entry calls" "entryKeys h' = entryKeys h"
    "calls \<noteq> [] \<longrightarrow> files w' (h_path h) = Some (json_dump ev (entries h'))" by simp_all
  have s: "sorted (rev (entryKeys h))" by (simp add: es)
  have k: "KStr ` set (entryKeys h) = fst ` set (entries h)"
    by (force simp: es image_iff)
  have l: "length (entryKeys h) = length (entries h)" by (simp add: es)
  from * s k l show ?thesis by simp
qed

theorem history_saves_append_witness:
  "fst (History_init example_env ''/wiki/history/a.json'' ''a'' empty_world) = Inr fresh_history
   \<and> entries (fst (History_saves example_env
        [(1, ''Nov 06'', ''alice'', ''v1''), (2, ''Nov 07'', ''bob'', ''v2'')] fresh_history empty_world))
       = [(KFloat 1, \<lparr>user = ''alice'', formatted_date = ''Nov 06'', version = ''v1''\<rparr>),
          (KFloat 2, \<lparr>user = ''bob'', formatted_date = ''Nov 07'', version = ''v2''\<rparr>)]"
proof -
  let ?calls = "[(1, ''Nov 06'', ''alice'', ''v1''), (2, ''Nov 07'', ''bob'', ''v2'')] :: (rat \<times> string \<times> string \<times> string) list"
  obtain h' w' where r: "History_saves example_env ?calls fresh_history empty_world = (h', w')"
    by (cases "History_saves example_env ?calls fresh_history empty_world")
  obtain w1 where i: "History_init example_env ''/wiki/history/a.json'' ''a'' empty_world = (Inr fresh_history, w1)"
    by (simp add: History_init_def History_create_def os_path_exists_def empty_world_def
        write_text_def read_text_def universal_newlines_def replace_def example_env_def
        fresh_history_def cr_def nl_def Let_def)
  have d: "distinct (map fst ?calls)" by simp
  from history_saves_append [OF i d r]
  have "entries h' = entries fresh_history @ map saved_entry ?calls" by simp
  then have "entries h' = [(KFloat 1, \<lparr>user = ''alice'', formatted_date = ''Nov 06'', version = ''v1''\<rparr>),
          (KFloat 2, \<lparr>user = ''bob'', formatted_date = ''Nov 07'', version = ''v2''\<rparr>)]"
    by (simp add: fresh_history_def saved_entry_def)
  with r i show ?thesis by simp
qed

text \<open>The claim as stated fails on a fresh history: after one \<open>save\<close> the entry map has
  a key that \<open>entryKeys\<close> lacks, and two calls of \<open>save\<close> with the same time stamp leave
  one entry, the version of the first call replaced by that of the second.\<close>

theorem history_append_only_counterexample:
  "fst (History_init example_env ''/wiki/history/a.json'' ''a'' empty_world) = Inr fresh_history
   \<and> map fst (entries (fst (History_save example_env 1 ''Nov 06'' ''alice'' ''v1'' fresh_history empty_world)))
       = [KFloat 1]
   \<and> entryKeys (fst (History_save example_env 1 ''Nov 06'' ''alice'' ''v1'' fresh_history empty_world)) = []
   \<and> entries (fst (History_saves example_env
        [(1, ''Nov 06'', ''alice'', ''v1''), (1, ''Nov 06'', ''bob'', ''v2'')] fresh_history empty_world))
       = [(KFloat 1, \<lparr>user = ''bob'', formatted_date = ''Nov 06'', version = ''v2''\<rparr>)]"
  by (simp add: History_init_def History_create_def os_path_exists_def empty_world_def
        write_text_def read_text_def universal_newlines_def replace_def example_env_def
        fresh_history_def cr_def nl_def Let_def History_save_def)

section \<open>Properties of the metadata stage\<close>



















section \<open>Properties of \<open>Wiki.delete\<close>\<close>

lemma History_init_Inr:
  assumes "History_init ev hp u w = (Inr h, w1)"
  shows "w1 = (if \<not> os_path_exists w hp then History_create hp w else w)
         \<and> files w1 hp \<noteq> None \<and> h_path h = hp"
proof -
  define w0 where "w0 = (if \<not> os_path_exists w hp then History_create hp w else w)"
  from assms have a: "(case read_text w0 hp of
           Inl e \<Rightarrow> (Inl e, w0)
         | Inr text \<Rightarrow>
             (case json_load ev text of
                None \<Rightarrow> (Inl JSONDecodeError, w0)
              | Some es \<Rightarrow>
                  (Inr \<lparr>h_url = u, h_path = hp,
                        entries = map (\<lambda>(k, v). (KStr k, v)) es,
                        entryKeys = rev (sort (map fst es))\<rparr>, w0))) = (Inr h, w1)"
    unfolding History_init_def Let_def w0_def .
  then obtain tx where t: "read_text w0 hp = Inr tx"
    by (cases "read_text w0 hp") auto
  with a obtain es where es: "json_load ev tx = Some es"
    by (cases "json_load ev tx") auto
  from a t es have "w1 = w0" "h_path h = hp" by auto
  moreover from t have "files w0 hp \<noteq> None"
    by (auto simp: read_text_def split: option.splits)
  ultimately show ?thesis unfolding w0_def by simp
qed

lemma Page_load_Inr: "Page_load pg w = Inr pg' \<Longrightarrow>
    files w (p_path pg) \<noteq> None \<and> p_history pg' = p_history pg \<and> p_path pg' = p_path pg"
  by (auto simp: Page_load_def read_text_def split: option.splits sum.splits)

lemma Page_render_Inr: "Page_render ev pg = Inr pg' \<Longrightarrow>
    p_history pg' = p_history pg \<and> p_path pg' = p_path pg"
  by (auto simp: Page_render_def split: option.splits sum.splits)

lemma Page_init_Inr:
  assumes "Page_init ev pth u False w = (Inr pg, w1)"
  shows "w1 = (if \<not> os_path_exists w (history_path pth u) then History_create (history_path pth u) w else w)
         \<and> files w1 (history_path pth u) \<noteq> None \<and> files w1 pth \<noteq> None
         \<and> h_path (p_history pg) = history_path pth u"
proof -
  obtain r w0 where hi: "History_init ev (history_path pth u) u w = (r, w0)"
    by (cases "History_init ev (history_path pth u) u w")
  with assms obtain h where r: "r = Inr h" by (cases r) (auto simp: Page_init_def)
  define pg0 where "pg0 = \<lparr>p_path = pth, p_url = u, p_meta = [], p_history = h,
                     p_content = None, p_html = None, p_body = None\<rparr>"
  from assms hi r have a: "(case Page_load pg0 w0 of
                      Inl e \<Rightarrow> (Inl e, w0)
                    | Inr pg1 \<Rightarrow>
                        (case Page_render ev pg1 of
                           Inl e \<Rightarrow> (Inl e, w0)
                         | Inr pg2 \<Rightarrow> (Inr pg2, w0))) = (Inr pg, w1)"
    by (simp add: Page_init_def pg0_def)
  then obtain pg1 where l: "Page_load pg0 w0 = Inr pg1" by (cases "Page_load pg0 w0") auto
  with a obtain pg2 where rn: "Page_render ev pg1 = Inr pg2" by (cases "Page_render ev pg1") auto
  from a l rn have e: "pg = pg2" "w1 = w0" by auto
  note hh = History_init_Inr [OF hi [unfolded r]]
  note h = hh [THEN conjunct1] hh [THEN conjunct2, THEN conjunct1] hh [THEN conjunct2, THEN conjunct2]
  from Page_load_Inr [OF l] have "files w0 pth \<noteq> None" "p_history pg1 = h"
    by (simp_all add: pg0_def)
  moreover from Page_render_Inr [OF rn] have "p_history pg2 = p_history pg1" by simp
  ultimately show ?thesis using h e by simp
qed

lemma Page_init_Inl:
  assumes "Page_init ev pth u False w = (Inl e, w1)"
  shows "w1 = (if \<not> os_path_exists w (history_path pth u) then History_create (history_path pth u) w else w)"
proof -
  obtain r w0 where hi: "History_init ev (history_path pth u) u w = (r, w0)"
    by (cases "History_init ev (history_path pth u) u w")
  have w0: "w0 = (if \<not> os_path_exists w (history_path pth u) then History_create (history_path pth u) w else w)"
    using hi by (auto simp: History_init_def Let_def split: sum.splits option.splits)
  have "w1 = w0" using assms hi
    by (auto simp: Page_init_def split: sum.splits)
  with w0 show ?thesis by simp
qed


lemma Wiki_delete_absent:
  "\<not> Wiki_exists ev root_dir u w \<Longrightarrow> Wiki_delete ev root_dir u w = (Inr False, w)"
  by (simp add: Wiki_delete_def Wiki_get_def Let_def)

lemma Wiki_delete_unloadable:
  assumes ex: "Wiki_exists ev root_dir u w"
    and pi: "Page_init ev (Wiki_path ev root_dir u) u False w = (Inl e, w1)"
  shows "Wiki_delete ev root_dir u w = (Inl e, w1) \<and> (\<forall>p. files w p \<noteq> None \<longrightarrow> files w1 p = files w p)"
proof -
  have d: "Wiki_delete ev root_dir u w = (Inl e, w1)"
    using ex pi by (simp add: Wiki_delete_def Wiki_get_def Let_def)
  from Page_init_Inl [OF pi]
  have "\<forall>p. files w p \<noteq> None \<longrightarrow> files w1 p = files w p"
    by (auto simp: History_create_def write_text_def os_path_exists_def)
  with d show ?thesis by simp
qed

lemma Wiki_delete_loaded:
  assumes ex: "Wiki_exists ev root_dir u w"
    and pi: "Page_init ev (Wiki_path ev root_dir u) u False w = (Inr pg, w1)"
    and ne: "h_path (p_history pg) \<noteq> Wiki_path ev root_dir u"
  shows "\<exists>w'. Wiki_delete ev root_dir u w = (Inr True, w')
           \<and> files w' (Wiki_path ev root_dir u) = None
           \<and> files w' (h_path (p_history pg)) = None
           \<and> (\<forall>p. p \<noteq> Wiki_path ev root_dir u \<and> p \<noteq> h_path (p_history pg) \<longrightarrow> files w' p = files w p)
           \<and> dirs w' = dirs w"
proof -
  define pth where "pth = Wiki_path ev root_dir u"
  define hp where "hp = history_path pth u"
  note i = Page_init_Inr [OF pi [folded pth_def], folded hp_def]
  note w1 = i [THEN conjunct1]
  note fh = i [THEN conjunct2, THEN conjunct1]
  note fp = i [THEN conjunct2, THEN conjunct2, THEN conjunct1]
  note hh = i [THEN conjunct2, THEN conjunct2, THEN conjunct2]
  from ne hh have neq: "hp \<noteq> pth" by (simp add: pth_def)
  have ex1: "Wiki_exists ev root_dir u w1"
    using fp by (simp add: Wiki_exists_def os_path_exists_def pth_def)
  from fh obtain th where th: "files w1 hp = Some th" by auto
  define w2 where "w2 = w1\<lparr>files := (files w1)(hp := None)\<rparr>"
  have r1: "os_remove w1 hp = Inr w2" using th by (simp add: os_remove_def w2_def)
  from fp neq obtain tp where tp: "files w2 pth = Some tp" by (auto simp: w2_def)
  define w3 where "w3 = w2\<lparr>files := (files w2)(pth := None)\<rparr>"
  have r2: "os_remove w2 pth = Inr w3" using tp by (simp add: os_remove_def w3_def)
  have d: "Wiki_delete ev root_dir u w = (Inr True, w3)"
    using ex pi ex1 r1 r2 hh
    by (simp add: Wiki_delete_def Wiki_get_def Let_def pth_def [symmetric])
  have a: "files w3 pth = None" "files w3 hp = None" by (simp_all add: w3_def w2_def)
  have b: "\<forall>p. p \<noteq> pth \<and> p \<noteq> hp \<longrightarrow> files w3 p = files w p"
    by (auto simp: w3_def w2_def w1 History_create_def write_text_def)
  have c: "dirs w3 = dirs w"
    by (auto simp: w3_def w2_def w1 History_create_def write_text_def)
  from d a b c show ?thesis unfolding hh pth_def [symmetric] by blast
qed

text \<open>
  Claim C7, as amended. \<open>delete(url)\<close> returns false and leaves the file system as it
  is when nothing exists at \<open>path(url)\<close>. When the path exists, \<open>delete\<close> first constructs
  the page. If that succeeds and the history file of the page is another file than the
  content file, both files are removed, every other file is as before, and \<open>delete\<close>
  returns true. If the construction raises (the content has no empty line, the history
  file is no JSON, ...), \<open>delete\<close> raises the same error and no file that existed is
  removed or changed.
\<close>

theorem Wiki_delete_outcomes:
  "(\<not> Wiki_exists ev root_dir u w \<longrightarrow> Wiki_delete ev root_dir u w = (Inr False, w))
   \<and> (\<forall>pg. Wiki_exists ev root_dir u w
           \<and> fst (Page_init ev (Wiki_path ev root_dir u) u False w) = Inr pg
           \<and> h_path (p_history pg) \<noteq> Wiki_path ev root_dir u
         \<longrightarrow> fst (Wiki_delete ev root_dir u w) = Inr True
             \<and> files (snd (Wiki_delete ev root_dir u w)) (Wiki_path ev root_dir u) = None
             \<and> files (snd (Wiki_delete ev root_dir u w)) (h_path (p_history pg)) = None
             \<and> (\<forall>p. p \<noteq> Wiki_path ev root_dir u \<and> p \<noteq> h_path (p_history pg)
                    \<longrightarrow> files (snd (Wiki_delete ev root_dir u w)) p = files w p))
   \<and> (\<forall>e. Wiki_exists ev root_dir u w
           \<and> fst (Page_init ev (Wiki_path ev root_dir u) u False w) = Inl e
         \<longrightarrow> fst (Wiki_delete ev root_dir u w) = Inl e
             \<and> (\<forall>p. files w p \<noteq> None \<longrightarrow> files (snd (Wiki_delete ev root_dir u w)) p = files w p))"
proof (intro conjI allI impI)
  assume "\<not> Wiki_exists ev root_dir u w"
  then show "Wiki_delete ev root_dir u w = (Inr False, w)" by (rule Wiki_delete_absent)
next
  fix pg
  assume h: "Wiki_exists ev root_dir u w
           \<and> fst (Page_init ev (Wiki_path ev root_dir u) u False w) = Inr pg
           \<and> h_path (p_history pg) \<noteq> Wiki_path ev root_dir u"
  then obtain w1 where pi: "Page_init ev (Wiki_path ev root_dir u) u False w = (Inr pg, w1)"
    by (cases "Page_init ev (Wiki_path ev root_dir u) u False w") auto
  from h have ex: "Wiki_exists ev root_dir u w" and ne: "h_path (p_history pg) \<noteq> Wiki_path ev root_dir u"
    by simp_all
  from Wiki_delete_loaded [OF ex pi ne] obtain w' where
    w': "Wiki_delete ev root_dir u w = (Inr True, w')"
      "files w' (Wiki_path ev root_dir u) = None"
      "files w' (h_path (p_history pg)) = None"
      "\<forall>p. p \<noteq> Wiki_path ev root_dir u \<and> p \<noteq> h_path (p_history pg) \<longrightarrow> files w' p = files w p"
    by blast
  show "fst (Wiki_delete ev root_dir u w) = Inr True" using w' by simp
  show "files (snd (Wiki_delete ev root_dir u w)) (Wiki_path ev root_dir u) = None" using w' by simp
  show "files (snd (Wiki_delete ev root_dir u w)) (h_path (p_history pg)) = None" using w' by simp
  fix p assume "p \<noteq> Wiki_path ev root_dir u \<and> p \<noteq> h_path (p_history pg)"
  then show "files (snd (Wiki_delete ev root_dir u w)) p = files w p" using w' by simp
next
  fix e
  assume h: "Wiki_exists ev root_dir u w
           \<and> fst (Page_init ev (Wiki_path ev root_dir u) u False w) = Inl e"
  then obtain w1 where pi: "Page_init ev (Wiki_path ev root_dir u) u False w = (Inl e, w1)"
    by (cases "Page_init ev (Wiki_path ev root_dir u) u False w") auto
  from h have ex: "Wiki_exists ev root_dir u w" by simp
  note r = Wiki_delete_unloadable [OF ex pi]
  show "fst (Wiki_delete ev root_dir u w) = Inl e" using r by simp
  fix p assume "files w p \<noteq> None"
  then show "files (snd (Wiki_delete ev root_dir u w)) p = files w p" using r by simp
qed


theorem Wiki_delete_outcomes_witness:
  "Wiki_exists example_env_nt ''wiki'' ''hello'' hello_world
   \<and> fst (Page_init example_env_nt (Wiki_path example_env_nt ''wiki'' ''hello'') ''hello'' False hello_world)
       = Inr hello_page
   \<and> fst (Wiki_delete example_env_nt ''wiki'' ''hello'' hello_world) = Inr True
   \<and> files (snd (Wiki_delete example_env_nt ''wiki'' ''hello'' hello_world))
        (''wiki'' @ [bslash] @ ''hello.md'') = None
   \<and> files (snd (Wiki_delete example_env_nt ''wiki'' ''hello'' hello_world))
        ''wiki/history/hello.json'' = None
   \<and> fst (Wiki_delete example_env_nt ''wiki'' ''other'' hello_world) = Inr False"
proof -
  have ex: "Wiki_exists example_env_nt ''wiki'' ''hello'' hello_world" by code_simp
  have pi: "fst (Page_init example_env_nt (Wiki_path example_env_nt ''wiki'' ''hello'') ''hello'' False hello_world)
       = Inr hello_page" by code_simp
  have ne: "h_path (p_history hello_page) \<noteq> Wiki_path example_env_nt ''wiki'' ''hello''" by code_simp
  have pth: "Wiki_path example_env_nt ''wiki'' ''hello'' = ''wiki'' @ [bslash] @ ''hello.md''" by code_simp
  have hp: "h_path (p_history hello_page) = ''wiki/history/hello.json''" by code_simp
  have nx: "\<not> Wiki_exists example_env_nt ''wiki'' ''other'' hello_world" by code_simp
  note t = Wiki_delete_outcomes [of example_env_nt "''wiki''" "''hello''" hello_world]
  note t2 = t [THEN conjunct2, THEN conjunct1, rule_format, OF conjI [OF ex conjI [OF pi ne]]]
  note o = Wiki_delete_outcomes [of example_env_nt "''wiki''" "''other''" hello_world,
      THEN conjunct1, rule_format, OF nx]
  from t2 [THEN conjunct1] t2 [THEN conjunct2, THEN conjunct1]
    t2 [THEN conjunct2, THEN conjunct2, THEN conjunct1] ex pi o
  show ?thesis unfolding pth hp by simp
qed

text \<open>The claim as stated fails: a content file without an empty line exists and
  \<open>delete\<close> raises \<open>ValueError\<close>, the file still there; and on POSIX, where the history
  path is the content path, the content file is read as JSON and \<open>delete\<close> raises.\<close>

theorem Wiki_delete_counterexample:
  "Wiki_exists example_env_nt ''wiki'' ''hello'' broken_world
   \<and> fst (Wiki_delete example_env_nt ''wiki'' ''hello'' broken_world) = Inl ValueError
   \<and> files (snd (Wiki_delete example_env_nt ''wiki'' ''hello'' broken_world))
        (''wiki'' @ [bslash] @ ''hello.md'') = Some ''no separator''
   \<and> Wiki_exists example_env ''/wiki'' ''hello'' posix_world
   \<and> fst (Wiki_delete example_env ''/wiki'' ''hello'' posix_world) = Inl JSONDecodeError
   \<and> files (snd (Wiki_delete example_env ''/wiki'' ''hello'' posix_world)) ''/wiki/hello.md''
       = Some ''title: Hello\<newline>\<newline>hi''"
  by code_simp

section \<open>Properties of \<open>Page.save\<close>\<close>

text \<open>
  Claim C10, as amended. Take a page whose metadata mapping is empty and whose body is
  such that the file \<open>Page.save\<close> writes (a newline, then the body with \<open>\r\n\<close> replaced
  by \<open>\n\<close>), read back with universal newlines, has no two newlines in a row: the body
  neither begins with a line break nor contains an empty line. Let the history file be
  another file than the content file, and let the folder of the content file exist or
  have a name that is not empty. Then \<open>save(user)\<close> with \<open>update=True\<close> writes the content
  file, stores the history entry and writes the history file, and then raises
  \<open>ValueError\<close> from the split stage of the re-render: both files stay written although
  \<open>save\<close> fails.
\<close>

theorem Page_save_not_atomic:
  assumes m: "p_meta pg = []" and b: "p_body pg = Some b"
    and nosep: "\<not> (\<exists>x y. universal_newlines (nl # replace [cr, nl] [nl] b) = x @ [nl, nl] @ y)"
    and ne: "h_path (p_history pg) \<noteq> p_path pg"
    and folder: "os_path_exists w (os_path_dirname ev (p_path pg)) \<or> os_path_dirname ev (p_path pg) \<noteq> []"
  shows "\<exists>pg' w'. Page_save ev ts fdate usr True pg w = (Inl ValueError, pg', w')
           \<and> files w' (p_path pg) = Some (nl # replace [cr, nl] [nl] b)
           \<and> entries (p_history pg') =
               AList.update (KFloat ts)
                 \<lparr>user = usr, formatted_date = fdate, version = replace [cr, nl] [nl] b\<rparr>
                 (entries (p_history pg))
           \<and> files w' (h_path (p_history pg)) = Some (json_dump ev (entries (p_history pg')))"
proof -
  define fld where "fld = os_path_dirname ev (p_path pg)"
  define body' where "body' = replace [cr, nl] [nl] b"
  define es where "es = AList.update (KFloat ts)
                 \<lparr>user = usr, formatted_date = fdate, version = body'\<rparr> (entries (p_history pg))"
  have fo: "os_path_exists w fld \<or> fld \<noteq> []" using folder by (simp add: fld_def)
  have "\<exists>w1. (if \<not> os_path_exists w fld then os_makedirs w fld else Inr w) = Inr w1
             \<and> files w1 = files w"
  proof (cases "os_path_exists w fld")
    case True then show ?thesis by simp
  next
    case False
    with fo have "fld \<noteq> []" by simp
    with False show ?thesis by (simp add: os_makedirs_def)
  qed
  then obtain w1 where w1: "(if \<not> os_path_exists w fld then os_makedirs w fld else Inr w) = Inr w1"
    and f1: "files w1 = files w" by blast
  define w2 where "w2 = write_text w1 (p_path pg) (nl # body')"
  define h where "h = (p_history pg)\<lparr>entries := es\<rparr>"
  define w3 where "w3 = write_text w2 (h_path (p_history pg)) (json_dump ev es)"
  define pg1 where "pg1 = pg\<lparr>p_history := h\<rparr>"
  have hs: "History_save ev ts fdate usr body' (p_history pg) w2 = (h, w3)"
    by (simp add: History_save_def Let_def es_def h_def w3_def)
  have fp: "files w3 (p_path pg) = Some (nl # body')"
    using ne by (simp add: w3_def w2_def write_text_def)
  have fh: "files w3 (h_path (p_history pg)) = Some (json_dump ev es)"
    by (simp add: w3_def write_text_def)
  define content where "content = universal_newlines (nl # body')"
  define pg2 where "pg2 = pg1\<lparr>p_content := Some content\<rparr>"
  have ld: "Page_load pg1 w3 = Inr pg2"
    using fp by (simp add: Page_load_def read_text_def pg1_def pg2_def content_def)
  from nosep have "split_once [nl, nl] content = None"
    using split_once_None [of "[nl, nl]" content] by (simp add: content_def body'_def)
  then have "split_raw content = Inl ValueError" by (simp add: split_raw_def)
  then have "process ev content = Inl ValueError" by (rule process_split_error)
  then have rn: "Page_render ev pg2 = Inl ValueError"
    by (simp add: Page_render_def pg2_def)
  have sv: "Page_save ev ts fdate usr True pg w = (Inl ValueError, pg2, w3)"
    unfolding Page_save_def Let_def fld_def [symmetric] w1
    by (simp add: b m meta_header_def body'_def [symmetric] w2_def [symmetric] hs
          pg1_def [symmetric] ld rn)
  have en: "entries (p_history pg2) = es" by (simp add: pg2_def pg1_def h_def)
  have "Page_save ev ts fdate usr True pg w = (Inl ValueError, pg2, w3)
           \<and> files w3 (p_path pg) = Some (nl # body')
           \<and> entries (p_history pg2) = es
           \<and> files w3 (h_path (p_history pg)) = Some (json_dump ev (entries (p_history pg2)))"
    using sv fp en fh by simp
  then show ?thesis unfolding es_def body'_def by (intro exI)
qed


theorem Page_save_not_atomic_witness:
  "fst (Page_init example_env_nt (''wiki'' @ [bslash] @ ''draft.md'') ''draft'' True hello_world)
     = Inr (draft_page\<lparr>p_body := None\<rparr>)
   \<and> fst (Page_save example_env_nt 5 ''Nov 06'' ''alice'' True draft_page hello_world) = Inl ValueError
   \<and> files (snd (snd (Page_save example_env_nt 5 ''Nov 06'' ''alice'' True draft_page hello_world)))
        (''wiki'' @ [bslash] @ ''draft.md'') = Some ''\<newline>first line\<newline>second line''
   \<and> files (snd (snd (Page_save example_env_nt 5 ''Nov 06'' ''alice'' True draft_page hello_world)))
        ''wiki/history/draft.json'' = Some ''entries: 1''"
proof -
  have i: "fst (Page_init example_env_nt (''wiki'' @ [bslash] @ ''draft.md'') ''draft'' True hello_world)
     = Inr (draft_page\<lparr>p_body := None\<rparr>)" by code_simp
  have m: "p_meta draft_page = []" by code_simp
  have b: "p_body draft_page = Some (''first line'' @ [cr, nl] @ ''second line'')" by code_simp
  have "split_once [nl, nl]
          (universal_newlines (nl # replace [cr, nl] [nl] (''first line'' @ [cr, nl] @ ''second line'')))
        = None" by code_simp
  then have nosep: "\<not> (\<exists>x y. universal_newlines
              (nl # replace [cr, nl] [nl] (''first line'' @ [cr, nl] @ ''second line'')) = x @ [nl, nl] @ y)"
    using split_once_None [of "[nl, nl]"] by simp
  have ne: "h_path (p_history draft_page) \<noteq> p_path draft_page" by code_simp
  have fo: "os_path_exists hello_world (os_path_dirname example_env_nt (p_path draft_page))
            \<or> os_path_dirname example_env_nt (p_path draft_page) \<noteq> []" by code_simp
  from Page_save_not_atomic [OF m b nosep ne fo, of 5 "''Nov 06''" "''alice''"]
  obtain pg' w' where
    r: "Page_save example_env_nt 5 ''Nov 06'' ''alice'' True draft_page hello_world = (Inl ValueError, pg', w')"
    and f: "files w' (p_path draft_page) = Some (nl # replace [cr, nl] [nl] (''first line'' @ [cr, nl] @ ''second line''))"
    and e: "entries (p_history pg') =
               AList.update (KFloat 5)
                 \<lparr>user = ''alice'', formatted_date = ''Nov 06'',
                    version = replace [cr, nl] [nl] (''first line'' @ [cr, nl] @ ''second line'')\<rparr>
                 (entries (p_history draft_page))"
    and h: "files w' (h_path (p_history draft_page)) = Some (json_dump example_env_nt (entries (p_history pg')))"
    by blast
  have p1: "p_path draft_page = ''wiki'' @ [bslash] @ ''draft.md''" by code_simp
  have p2: "h_path (p_history draft_page) = ''wiki/history/draft.json''" by code_simp
  have c1: "nl # replace [cr, nl] [nl] (''first line'' @ [cr, nl] @ ''second line'')
            = ''\<newline>first line\<newline>second line''" by code_simp
  have c2: "json_dump example_env_nt (AList.update (KFloat 5)
                 \<lparr>user = ''alice'', formatted_date = ''Nov 06'',
                    version = replace [cr, nl] [nl] (''first line'' @ [cr, nl] @ ''second line'')\<rparr>
                 (entries (p_history draft_page))) = ''entries: 1''" by code_simp
  from i r f h show ?thesis unfolding e p1 p2 c1 c2 by simp
qed

text \<open>The claim as stated fails for a body with an empty line in it: the file written
  then has a separator, the split stage succeeds, and the error \<open>save\<close> raises is the
  \<open>KeyError\<close> of the metadata stage.\<close>

theorem Page_save_counterexample:
  "p_meta (draft_page\<lparr>p_body := Some ''a\<newline>\<newline>b''\<rparr>) = []
   \<and> fst (Page_save example_env_nt 5 ''Nov 06'' ''alice'' True
          (draft_page\<lparr>p_body := Some ''a\<newline>\<newline>b''\<rparr>) hello_world) = Inl KeyError
   \<and> files (snd (snd (Page_save example_env_nt 5 ''Nov 06'' ''alice'' True
          (draft_page\<lparr>p_body := Some ''a\<newline>\<newline>b''\<rparr>) hello_world)))
        (''wiki'' @ [bslash] @ ''draft.md'') = Some ''\<newline>a\<newline>\<newline>b''
   \<and> split_raw ''\<newline>a\<newline>\<newline>b'' = Inr (''\<newline>a'', ''b'')"
  by code_simp

section \<open>Properties of the link resolver\<close>

text \<open>
  Claim C5. The link resolver must rewrite \<open>[[target]]\<close> and \<open>[[target|Display Name]]\<close>
  into anchors, left to right, but never inside an inline-code span. The lookbehind of
  the pattern only refuses a link that comes directly after the opening \<open><code>\<close> tag:
  that link is left alone, links outside code are rewritten, and a link further inside
  a code span is rewritten too.
\<close>

theorem wikilink_rewrites_inside_code:
  "wikilink ''<p><code>[[Foo]]</code></p>'' (\<lambda>u. ''/'' @ u) = Inr ''<p><code>[[Foo]]</code></p>''
   \<and> wikilink ''<p>see [[Foo]] and [[some page|Bar]]</p>'' (\<lambda>u. ''/'' @ u)
       = Inr ''<p>see <a href='/foo'>Foo</a> and <a href='/some_page'>Bar</a></p>''
   \<and> wikilink ''<p><code>see [[Foo]]</code></p>'' (\<lambda>u. ''/'' @ u)
       = Inr ''<p><code>see <a href='/foo'>Foo</a></code></p>''"
  by code_simp

end
